theory Spec2Isabelle
  imports Complex_Main
begin

section \<open>Python and numpy values\<close>

text \<open>
  The script \<open>WaDIQaM.py\<close> is modelled from its line 26 (\<open>measure\<close>) and from line 99
  (\<open># Train the network\<close>) to its end. Floating-point numbers are modelled as real
  numbers without rounding; the one non-number the script's own arithmetic can produce
  (\<open>nan\<close>, the mean of an empty array) is kept as a value of its own. Every exception the
  modelled lines can raise is a value of \<open>py_error\<close>.
\<close>

datatype py_error = AttributeError | IndexError | NameError | TypeError | ValueError

datatype npfloat = Fin real | NaN

text \<open>
  What \<open>np.asarray\<close> receives: a number, or a Python list (or tensor) of such things.
\<close>

datatype array_like = Scalar real | Nested "array_like list"

text \<open>A Python tuple or list read at a constant index: \<open>data[2]\<close>.\<close>

definition py_index :: "'a list \<Rightarrow> nat \<Rightarrow> py_error + 'a" where
  "py_index xs k = (if k < length xs then Inr (xs ! k) else Inl IndexError)"

text \<open>
  \<open>np.asarray\<close> accepts a nested sequence only when all entries of each level have one
  shape; the array it builds holds the shape and the values in row-major order.
\<close>

fun np_shape :: "array_like \<Rightarrow> nat list option" where
  "np_shape (Scalar x) = Some []"
| "np_shape (Nested as) =
     (case map np_shape as of
        [] \<Rightarrow> Some [0]
      | None # rest \<Rightarrow> None
      | Some s # rest \<Rightarrow>
          if list_all (\<lambda>r. r = Some s) rest then Some (length as # s) else None)"

fun flat :: "array_like \<Rightarrow> real list" where
  "flat (Scalar x) = [x]"
| "flat (Nested as) = concat (map flat as)"

type_synonym ndarray = "nat list \<times> real list"

definition np_asarray :: "array_like \<Rightarrow> py_error + ndarray" where
  "np_asarray a = (case np_shape a of None \<Rightarrow> Inl ValueError | Some s \<Rightarrow> Inr (s, flat a))"

text \<open>\<open>np.reshape(a, (-1,))\<close>: the one-dimensional array of the same values.\<close>

definition np_reshape_flat :: "ndarray \<Rightarrow> real list" where
  "np_reshape_flat a = snd a"

text \<open>
  An elementwise operation on two one-dimensional arrays: equal lengths pair up, an
  array of length one is broadcast, anything else raises.
\<close>

definition np_elementwise ::
  "('a \<Rightarrow> 'b \<Rightarrow> 'c) \<Rightarrow> 'a list \<Rightarrow> 'b list \<Rightarrow> py_error + 'c list" where
  "np_elementwise f xs ys =
     (if length xs = length ys then Inr (map2 f xs ys)
      else if length xs = 1 then Inr (map (f (hd xs)) ys)
      else if length ys = 1 then Inr (map (\<lambda>x. f x (hd ys)) xs)
      else Inl ValueError)"

definition np_mean :: "real list \<Rightarrow> npfloat" where
  "np_mean xs = (if xs = [] then NaN else Fin (sum_list xs / real (length xs)))"

fun np_sqrt :: "npfloat \<Rightarrow> npfloat" where
  "np_sqrt NaN = NaN"
| "np_sqrt (Fin x) = (if x < 0 then NaN else Fin (sqrt x))"

fun np_times :: "npfloat \<Rightarrow> real \<Rightarrow> npfloat" where
  "np_times NaN k = NaN"
| "np_times (Fin x) k = Fin (x * k)"

definition bool_to_real :: "bool \<Rightarrow> real" where
  "bool_to_real b = (if b then 1 else 0)"

section \<open>The evaluator\<close>

text \<open>
  \<open>measure\<close> (lines 26-36). The three \<open>scipy.stats\<close> routines are parameters: each
  returns a coefficient (possibly \<open>nan\<close>) or raises.
\<close>

type_synonym stat = "real list \<Rightarrow> real list \<Rightarrow> py_error + npfloat"

type_synonym measure_values = "npfloat \<times> npfloat \<times> npfloat \<times> npfloat \<times> npfloat"

text \<open>A raised exception ends the computation it occurs in.\<close>

definition py_bind :: "py_error + 'a \<Rightarrow> ('a \<Rightarrow> py_error + 'b) \<Rightarrow> py_error + 'b" where
  "py_bind m f = (case m of Inl e \<Rightarrow> Inl e | Inr x \<Rightarrow> f x)"

definition measure_flat ::
  "stat \<Rightarrow> stat \<Rightarrow> stat \<Rightarrow> real list \<Rightarrow> real list \<Rightarrow> real list \<Rightarrow> py_error + measure_values" where
  "measure_flat spearmanr kendalltau pearsonr sq q sq_std =
     py_bind (spearmanr sq q) (\<lambda>srocc.
     py_bind (kendalltau sq q) (\<lambda>krocc.
     py_bind (pearsonr sq q) (\<lambda>plcc.
     py_bind (np_elementwise (-) sq q) (\<lambda>d.
     let rmse = np_sqrt (np_mean (map (\<lambda>x. x ^ 2) d)) in
     py_bind (np_elementwise (-) sq q) (\<lambda>d'.
     py_bind (np_elementwise (\<lambda>a t. a > t) (map abs d') (map (\<lambda>s. 2 * s) sq_std)) (\<lambda>outl.
     let outlier_ratio = np_mean (map bool_to_real outl) in
     Inr (srocc, krocc, plcc, rmse, outlier_ratio)))))))"

definition measure_py ::
  "stat \<Rightarrow> stat \<Rightarrow> stat \<Rightarrow> array_like \<Rightarrow> array_like \<Rightarrow> array_like \<Rightarrow> py_error + measure_values" where
  "measure_py spearmanr kendalltau pearsonr sq q sq_std =
     py_bind (np_asarray sq) (\<lambda>a_sq.
     py_bind (np_asarray sq_std) (\<lambda>a_sq_std.
     py_bind (np_asarray q) (\<lambda>a_q.
     measure_flat spearmanr kendalltau pearsonr
       (np_reshape_flat a_sq) (np_reshape_flat a_q) (np_reshape_flat a_sq_std))))"

section \<open>The training script\<close>

subsection \<open>Configuration, collaborators and state\<close>

text \<open>
  The entries of \<open>config.yaml\<close> that lines 99-249 read. \<open>model\<close> is the string of line
  48; \<open>n_epochs\<close> is a Python integer.
\<close>

record conf =
  EXP_ID :: string
  database :: string
  model :: string
  test_ratio :: real
  n_epochs :: int
  enableTensorboard :: bool
  test_during_training :: bool

text \<open>
  A batch is the tuple a data loader yields. The network, the optimizer and the loaders
  are external; they are taken as given:
  \<^item> \<open>trainloader e\<close> is what the shuffling loader yields in epoch \<open>e\<close>;
  \<^item> \<open>train_step\<close> is lines 110-115 for one batch (forward pass, \<open>backward\<close>, optimizer
    step) and returns the number \<open>loss.data[0]\<close>;
  \<^item> \<open>forward_eval\<close> is \<open>net(data, train=False)\<close> and returns the number that line 131
    reads from \<open>outputs[0]\<close> together with \<open>outputs[3].data\<close>.
\<close>

type_synonym batch = "array_like list"

record ('n, 'p, 'o) env =
  trainloader :: "nat \<Rightarrow> batch list"
  valloader :: "batch list"
  testloader :: "batch list"
  test_index :: "nat list"
  train_step :: "'o \<Rightarrow> 'n \<Rightarrow> batch \<Rightarrow> 'o \<times> 'n \<times> real"
  forward_eval :: "'n \<Rightarrow> batch \<Rightarrow> real \<times> array_like"
  state_dict :: "'n \<Rightarrow> 'p"
  spearmanr :: stat
  kendalltau :: stat
  pearsonr :: stat

text \<open>
  What the script prints and writes. A line holds the values handed to \<open>format\<close>, in the
  order of the text.
\<close>

datatype out_line =
    UpdateLine string nat
  | ValResults real npfloat npfloat npfloat npfloat npfloat
  | TestResults real npfloat npfloat npfloat npfloat npfloat

datatype ('n, 'p) file_content =
    TxtFile "out_line list"
  | NpyFile "array_like list" "array_like list" "array_like list" real
      npfloat npfloat npfloat npfloat npfloat "nat list"
  | StateDictFile 'p
  | FullModelFile 'n

datatype split = Val | Test

text \<open>The calls of the network and of the evaluator, in the order they are made.\<close>

datatype call =
    NetTrain
  | TrainStep batch
  | NetEval
  | ForwardEval split batch
  | Measure split array_like array_like array_like

text \<open>
  The script's variables that outlive an iteration of the epoch loop, the file system,
  the standard output, the tensorboard scalars and the call log. \<open>loop_i\<close> is the
  variable \<open>i\<close>, unbound (\<open>None\<close>) until a loop has run once; \<open>val_loss\<close> is the
  variable of line 131 and \<open>val_metrics\<close> the five variables of line 133.
\<close>

record ('n, 'p, 'o) state =
  net :: 'n
  optimizer :: 'o
  step :: nat
  best_val_criterion :: real
  loop_i :: "nat option"
  val_loss :: "real option"
  val_metrics :: "measure_values option"
  files :: "string \<Rightarrow> ('n, 'p) file_content option"
  stdout :: "out_line list"
  scalars :: "(string \<times> string \<times> npfloat \<times> nat) list"
  calls :: "call list"

definition trained_model_file :: "conf \<Rightarrow> string" where
  "trained_model_file c = ''models/'' @ model c @ ''-'' @ database c @ ''-EXP'' @ EXP_ID c"

definition save_result_file :: "conf \<Rightarrow> string" where
  "save_result_file c = ''results/'' @ model c @ ''-'' @ database c @ ''-EXP'' @ EXP_ID c"

definition logger_name :: "conf \<Rightarrow> string \<Rightarrow> string" where
  "logger_name c suffix =
     ''./logs/EXP'' @ EXP_ID c @ ''-'' @ database c @ ''-'' @ model c @ suffix"

text \<open>Lines 103-104, with the network and the optimizer as built by lines 69-102.\<close>

definition init_state ::
  "'n \<Rightarrow> 'o \<Rightarrow> (string \<Rightarrow> ('n, 'p) file_content option) \<Rightarrow> ('n, 'p, 'o) state" where
  "init_state net0 opt0 fs0 =
     \<lparr>net = net0, optimizer = opt0, step = 1, best_val_criterion = 10000,
      loop_i = None, val_loss = None, val_metrics = None, files = fs0, stdout = [], scalars = [], calls = []\<rparr>"

subsection \<open>The training pass (lines 107-117)\<close>

fun train_loop ::
  "('n, 'p, 'o) env \<Rightarrow> batch list \<Rightarrow> nat \<Rightarrow> ('n, 'p, 'o) state \<times> real \<Rightarrow>
   ('n, 'p, 'o) state \<times> real" where
  "train_loop ev [] k (s, L) = (s, L)"
| "train_loop ev (d # ds) k (s, L) =
     (case train_step ev (optimizer s) (net s) d of (opt', net', loss) \<Rightarrow>
        train_loop ev ds (Suc k)
          (s\<lparr>net := net', optimizer := opt', step := step s + 1, loop_i := Some k,
             calls := calls s @ [TrainStep d]\<rparr>,
           L + loss))"

definition train_pass ::
  "('n, 'p, 'o) env \<Rightarrow> nat \<Rightarrow> ('n, 'p, 'o) state \<Rightarrow> py_error + ('n, 'p, 'o) state \<times> real" where
  "train_pass ev epoch s =
     (case train_loop ev (trainloader ev epoch) 0 (s\<lparr>calls := calls s @ [NetTrain]\<rparr>, 0) of
        (s', L) \<Rightarrow>
          (case loop_i s' of
             None \<Rightarrow> Inl NameError
           | Some i \<Rightarrow> Inr (s', L / (real i + 1))))"

subsection \<open>An evaluation pass (lines 121-133, again at 137-149)\<close>

record eval_out =
  ev_loss :: real
  ev_measure :: measure_values
  ev_q :: "array_like list"
  ev_sq :: "array_like list"
  ev_sq_std :: "array_like list"

fun eval_loop ::
  "('n, 'p, 'o) env \<Rightarrow> split \<Rightarrow> batch list \<Rightarrow> nat \<Rightarrow>
   ('n, 'p, 'o) state \<times> real \<times> array_like list \<times> array_like list \<times> array_like list \<Rightarrow>
   py_error +
   ('n, 'p, 'o) state \<times> real \<times> array_like list \<times> array_like list \<times> array_like list" where
  "eval_loop ev sp [] k acc = Inr acc"
| "eval_loop ev sp (d # ds) k (s, L, q, sq, sq_std) =
     py_bind (py_index d 2) (\<lambda>d2.
     py_bind (py_index d 3) (\<lambda>d3.
     case forward_eval ev (net s) d of (loss, pred) \<Rightarrow>
       eval_loop ev sp ds (Suc k)
         (s\<lparr>loop_i := Some k, calls := calls s @ [ForwardEval sp d]\<rparr>,
          L + loss, q @ [pred], sq @ [d2], sq_std @ [d3])))"

text \<open>
  \<open>L\<close> starts as the integer \<open>0\<close>; when the loader yields nothing, \<open>L[0]\<close> raises.
\<close>

definition eval_pass ::
  "('n, 'p, 'o) env \<Rightarrow> split \<Rightarrow> batch list \<Rightarrow> ('n, 'p, 'o) state \<Rightarrow>
   py_error + ('n, 'p, 'o) state \<times> eval_out" where
  "eval_pass ev sp loader s =
     py_bind (eval_loop ev sp loader 0 (s, 0, [], [], [])) (\<lambda>(s1, L, q, sq, sq_std).
     if loader = [] then Inl TypeError
     else case loop_i s1 of
       None \<Rightarrow> Inl NameError
     | Some i \<Rightarrow>
         let loss = L / (real i + 1);
             s2 = s1\<lparr>calls := calls s1 @ [Measure sp (Nested sq) (Nested q) (Nested sq_std)]\<rparr>
         in py_bind (measure_py (spearmanr ev) (kendalltau ev) (pearsonr ev)
                       (Nested sq) (Nested q) (Nested sq_std)) (\<lambda>mv.
            Inr (s2, \<lparr>ev_loss = loss, ev_measure = mv, ev_q = q, ev_sq = sq,
                      ev_sq_std = sq_std\<rparr>)))"

subsection \<open>Logging and the best-model update (lines 136-217)\<close>

definition test_enabled :: "conf \<Rightarrow> bool" where
  "test_enabled c = (test_ratio c > 0 \<and> test_during_training c)"

text \<open>
  The variables \<open>test_loss\<close>, \<open>SROCC\<close>, ... are bound only once the test pass has run:
  \<open>None\<close> stands for unbound.
\<close>

definition log_scalars ::
  "conf \<Rightarrow> nat \<Rightarrow> real \<Rightarrow> eval_out \<Rightarrow> eval_out option \<Rightarrow> ('n, 'p, 'o) state \<Rightarrow>
   py_error + ('n, 'p, 'o) state" where
  "log_scalars c epoch train_loss v t s =
     (if enableTensorboard c then
        (case ev_measure v of (val_SROCC, val_KROCC, val_PLCC, val_RMSE, val_OR) \<Rightarrow>
         let s1 = s\<lparr>scalars := scalars s @
                    [(logger_name c ''-train'', ''loss: '', Fin train_loss, epoch),
                     (logger_name c ''-val'', ''loss: '', Fin (ev_loss v), epoch),
                     (logger_name c ''-val'', ''SROCC: '', val_SROCC, epoch),
                     (logger_name c ''-val'', ''KROCC: '', val_KROCC, epoch),
                     (logger_name c ''-val'', ''PLCC: '', val_PLCC, epoch),
                     (logger_name c ''-val'', ''RMSE: '', val_RMSE, epoch),
                     (logger_name c ''-val'', ''OR: '', val_OR, epoch)]\<rparr>
         in if test_enabled c then
              (case t of
                 None \<Rightarrow> Inl NameError
               | Some r \<Rightarrow>
                   (case ev_measure r of (SROCC, KROCC, PLCC, RMSE, OR) \<Rightarrow>
                      Inr (s1\<lparr>scalars := scalars s1 @
                             [(logger_name c ''-test'', ''loss: '', Fin (ev_loss r), epoch),
                              (logger_name c ''-test'', ''SROCC: '', SROCC, epoch),
                              (logger_name c ''-test'', ''KROCC: '', KROCC, epoch),
                              (logger_name c ''-test'', ''PLCC: '', PLCC, epoch),
                              (logger_name c ''-test'', ''RMSE: '', RMSE, epoch),
                              (logger_name c ''-test'', ''OR: '', OR, epoch)]\<rparr>)))
            else Inr s1)
      else Inr s)"

text \<open>\<open>np.save\<close> appends \<open>.npy\<close> to a file name that does not end in it.\<close>

definition ends_with :: "string \<Rightarrow> string \<Rightarrow> bool" where
  "ends_with suffix p =
     (length suffix \<le> length p \<and> drop (length p - length suffix) p = suffix)"

definition np_save_path :: "string \<Rightarrow> string" where
  "np_save_path p = (if ends_with ''.npy'' p then p else p @ ''.npy'')"

text \<open>The condition of line 172.\<close>

definition update_guard :: "conf \<Rightarrow> nat \<Rightarrow> real \<Rightarrow> ('n, 'p, 'o) state \<Rightarrow> bool" where
  "update_guard c epoch vl s =
     (vl < best_val_criterion s \<and> real epoch > real_of_int (n_epochs c) / 6)"

text \<open>
  Lines 172-217. The text file opened at line 184 holds, once closed at line 213, the
  lines written to it.
\<close>

definition update_best ::
  "conf \<Rightarrow> ('n, 'p, 'o) env \<Rightarrow> nat \<Rightarrow> eval_out \<Rightarrow> eval_out option \<Rightarrow> ('n, 'p, 'o) state \<Rightarrow>
   py_error + ('n, 'p, 'o) state" where
  "update_best c ev epoch v t s =
     (if update_guard c epoch (ev_loss v) s then
        (case ev_measure v of (val_SROCC, val_KROCC, val_PLCC, val_RMSE, val_OR) \<Rightarrow>
         let l1 = UpdateLine (EXP_ID c) epoch;
             l2 = ValResults (ev_loss v) val_SROCC val_KROCC val_PLCC val_RMSE
                    (np_times val_OR 100);
             s1 = s\<lparr>stdout := stdout s @ [l1, l2]\<rparr>
         in py_bind
              (if test_enabled c then
                 (case t of
                    None \<Rightarrow> Inl NameError
                  | Some r \<Rightarrow>
                      (case ev_measure r of (SROCC, KROCC, PLCC, RMSE, OR) \<Rightarrow>
                       let l3 = TestResults (ev_loss r) SROCC KROCC PLCC RMSE
                                  (np_times val_OR 100)
                       in Inr (s1\<lparr>stdout := stdout s1 @ [l3],
                                  files := (files s1)
                                    (np_save_path (save_result_file c) \<mapsto>
                                       NpyFile (ev_sq r) (ev_sq_std r) (ev_q r) (ev_loss r)
                                         SROCC KROCC PLCC RMSE OR (test_index ev))\<rparr>,
                               [l1, l2, l3])))
               else Inr (s1, [l1, l2]))
              (\<lambda>(s2, txt).
                 let s3 = s2\<lparr>files := (files s2)(save_result_file c @ ''.txt'' \<mapsto> TxtFile txt)\<rparr>;
                     s4 = s3\<lparr>files := (files s3)
                            (trained_model_file c \<mapsto> StateDictFile (state_dict ev (net s3)))\<rparr>;
                     s5 = s4\<lparr>files := (files s4)
                            (trained_model_file c @ ''.full'' \<mapsto> FullModelFile (net s4))\<rparr>
                 in Inr (s5\<lparr>best_val_criterion := ev_loss v\<rparr>)))
      else Inr s)"

subsection \<open>One epoch, the epoch loop and the final test\<close>

definition epoch_body ::
  "conf \<Rightarrow> ('n, 'p, 'o) env \<Rightarrow> nat \<Rightarrow> ('n, 'p, 'o) state \<Rightarrow> py_error + ('n, 'p, 'o) state" where
  "epoch_body c ev epoch s =
     py_bind (train_pass ev epoch s) (\<lambda>(s1, train_loss).
     py_bind (eval_pass ev Val (valloader ev) (s1\<lparr>calls := calls s1 @ [NetEval]\<rparr>)) (\<lambda>(s2, v).
     let s3 = s2\<lparr>val_loss := Some (ev_loss v), val_metrics := Some (ev_measure v)\<rparr> in
     py_bind (if test_enabled c
              then py_bind (eval_pass ev Test (testloader ev) s3) (\<lambda>(s4, r). Inr (s4, Some r))
              else Inr (s3, None)) (\<lambda>(s4, t).
     py_bind (log_scalars c epoch train_loss v t s4) (\<lambda>s5.
     update_best c ev epoch v t s5))))"

fun run_epochs ::
  "conf \<Rightarrow> ('n, 'p, 'o) env \<Rightarrow> nat list \<Rightarrow> ('n, 'p, 'o) state \<Rightarrow> py_error + ('n, 'p, 'o) state" where
  "run_epochs c ev [] s = Inr s"
| "run_epochs c ev (epoch # rest) s = py_bind (epoch_body c ev epoch s) (run_epochs c ev rest)"

text \<open>The state after the first \<open>k\<close> iterations of \<open>for epoch in range(...)\<close>.\<close>

definition after_epochs ::
  "conf \<Rightarrow> ('n, 'p, 'o) env \<Rightarrow> ('n, 'p, 'o) state \<Rightarrow> nat \<Rightarrow> py_error + ('n, 'p, 'o) state" where
  "after_epochs c ev s0 k = run_epochs c ev [0..<k] s0"

text \<open>
  Line 221 looks \<open>load_state_dict\<close> up on \<open>model\<close>, the string of line 48. A string has no
  such attribute: the lookup raises before \<open>torch.load\<close> is called, and lines 222-249 are
  never reached.
\<close>

definition final_test ::
  "conf \<Rightarrow> ('n, 'p, 'o) env \<Rightarrow> ('n, 'p, 'o) state \<Rightarrow> py_error + ('n, 'p, 'o) state" where
  "final_test c ev s = (if test_ratio c > 0 then Inl AttributeError else Inr s)"

definition main ::
  "conf \<Rightarrow> ('n, 'p, 'o) env \<Rightarrow> ('n, 'p, 'o) state \<Rightarrow> py_error + ('n, 'p, 'o) state" where
  "main c ev s0 = py_bind (after_epochs c ev s0 (nat (n_epochs c))) (final_test c ev)"

section \<open>Notions the properties are stated with\<close>

text \<open>
  The epochs in which the best model was updated, read off the lines the script prints
  (line 174 prints the epoch number on entering the update branch).
\<close>

fun updated_epochs :: "out_line list \<Rightarrow> nat list" where
  "updated_epochs [] = []"
| "updated_epochs (UpdateLine x e # ls) = e # updated_epochs ls"
| "updated_epochs (l # ls) = updated_epochs ls"

text \<open>The epochs line 172 admits: \<open>epoch > n_epochs/6\<close>.\<close>

definition eligible :: "conf \<Rightarrow> nat \<Rightarrow> bool" where
  "eligible c e = (real e > real_of_int (n_epochs c) / 6)"

text \<open>The validation loss computed in epoch \<open>e\<close> of a run started in \<open>s0\<close>.\<close>

definition val_loss_of_epoch ::
  "conf \<Rightarrow> ('n, 'p, 'o) env \<Rightarrow> ('n, 'p, 'o) state \<Rightarrow> nat \<Rightarrow> real option" where
  "val_loss_of_epoch c ev s0 e =
     (case after_epochs c ev s0 (Suc e) of Inl err \<Rightarrow> None | Inr s \<Rightarrow> val_loss s)"

text \<open>The network at the end of epoch \<open>e\<close>, the one line 215 saves in that epoch.\<close>

definition net_of_epoch ::
  "conf \<Rightarrow> ('n, 'p, 'o) env \<Rightarrow> ('n, 'p, 'o) state \<Rightarrow> nat \<Rightarrow> 'n option" where
  "net_of_epoch c ev s0 e =
     (case after_epochs c ev s0 (Suc e) of Inl err \<Rightarrow> None | Inr s \<Rightarrow> Some (net s))"

text \<open>
  The root of the mean squared difference and the share of outliers, as formulas over
  the items of the sequences.
\<close>

definition rmse_spec :: "real list \<Rightarrow> real list \<Rightarrow> real" where
  "rmse_spec sq q = sqrt ((\<Sum>i<length sq. (sq ! i - q ! i) ^ 2) / real (length sq))"

definition outlier_ratio_spec :: "real list \<Rightarrow> real list \<Rightarrow> real list \<Rightarrow> real" where
  "outlier_ratio_spec sq q sq_std =
     real (card {i. i < length sq \<and> \<bar>sq ! i - q ! i\<bar> > 2 * sq_std ! i}) / real (length sq)"

text \<open>The flat sequence of values \<open>measure\<close> computes from an input (lines 28-30).\<close>

definition flattened :: "array_like \<Rightarrow> py_error + real list" where
  "flattened a = py_bind (np_asarray a) (\<lambda>x. Inr (np_reshape_flat x))"

text \<open>
  Modelled from the spec: the dataset provider \<open>IQADataset\<close> is not among the sources;
  the spec has it yield batches of (patches, distortion labels, subjective quality mean,
  subjective quality std-dev).
\<close>

definition dataset_batch ::
  "array_like \<Rightarrow> array_like \<Rightarrow> array_like \<Rightarrow> array_like \<Rightarrow> batch" where
  "dataset_batch patches labels quality_mean quality_std =
     [patches, labels, quality_mean, quality_std]"

text \<open>The calls of the test pass of an epoch, when it runs.\<close>

definition test_calls :: "('n, 'p, 'o) env \<Rightarrow> eval_out option \<Rightarrow> call list" where
  "test_calls ev t =
     (case t of
        None \<Rightarrow> []
      | Some r \<Rightarrow> map (ForwardEval Test) (testloader ev) @
          [Measure Test (Nested (ev_sq r)) (Nested (ev_q r)) (Nested (ev_sq_std r))])"

fun is_val_measure :: "call \<Rightarrow> bool" where
  "is_val_measure (Measure Val sq q sq_std) = True"
| "is_val_measure x = False"

fun is_train_step :: "call \<Rightarrow> bool" where
  "is_train_step (TrainStep d) = True"
| "is_train_step x = False"

section \<open>A small run\<close>

text \<open>
  One training batch, one validation image and one test image. The network is the
  number of training steps taken; its validation and test loss is that number, and it
  predicts the quality 3 for every image. The correlation routines return 1.
\<close>

definition demo_env :: "(int, int, unit) env" where
  "demo_env =
     \<lparr>trainloader = (\<lambda>e. [dataset_batch (Scalar 0) (Scalar 0) (Scalar 5) (Scalar 1)]),
      valloader = [dataset_batch (Scalar 0) (Scalar 0) (Scalar 3) (Scalar 1)],
      testloader = [dataset_batch (Scalar 0) (Scalar 0) (Scalar 4) (Scalar (1/4))],
      test_index = [7],
      train_step = (\<lambda>opt n d. ((), n + 1, 1)),
      forward_eval = (\<lambda>n d. (real_of_int n, Nested [Scalar 3])),
      state_dict = (\<lambda>n. n),
      spearmanr = (\<lambda>sq q. Inr (Fin 1)),
      kendalltau = (\<lambda>sq q. Inr (Fin 1)),
      pearsonr = (\<lambda>sq q. Inr (Fin 1))\<rparr>"

definition demo_conf :: conf where
  "demo_conf =
     \<lparr>EXP_ID = ''0'', database = ''LIVE'', model = ''WaDIQaM-FR'', test_ratio = 1/5,
      n_epochs = 2, enableTensorboard = False, test_during_training = True\<rparr>"

text \<open>The same configuration with a single epoch.\<close>

definition demo_conf1 :: conf where
  "demo_conf1 = demo_conf\<lparr>n_epochs := 1\<rparr>"

definition demo_init :: "(int, int, unit) state" where
  "demo_init = init_state 0 () (\<lambda>p. None)"

text \<open>
  The calls of one epoch of the small run, and its states after the first and the second
  epoch.
\<close>

definition demo_calls :: "call list" where
  "demo_calls =
     [NetTrain, TrainStep (dataset_batch (Scalar 0) (Scalar 0) (Scalar 5) (Scalar 1)),
      NetEval, ForwardEval Val (dataset_batch (Scalar 0) (Scalar 0) (Scalar 3) (Scalar 1)),
      Measure Val (Nested [Scalar 3]) (Nested [Nested [Scalar 3]]) (Nested [Scalar 1]),
      ForwardEval Test (dataset_batch (Scalar 0) (Scalar 0) (Scalar 4) (Scalar (1/4))),
      Measure Test (Nested [Scalar 4]) (Nested [Nested [Scalar 3]]) (Nested [Scalar (1/4)])]"

definition demo_state1 :: "(int, int, unit) state" where
  "demo_state1 =
     demo_init\<lparr>net := 1, step := 2, loop_i := Some 0, val_loss := Some 1,
       val_metrics := Some (Fin 1, Fin 1, Fin 1, Fin 0, Fin 0), calls := demo_calls\<rparr>"

definition demo_state2 :: "(int, int, unit) state" where
  "demo_state2 =
     demo_state1\<lparr>net := 2, step := 3, best_val_criterion := 2, val_loss := Some 2,
       files := (\<lambda>p. None)
         (''results/WaDIQaM-FR-LIVE-EXP0.npy'' \<mapsto>
            NpyFile [Scalar 4] [Scalar (1/4)] [Nested [Scalar 3]] 2
              (Fin 1) (Fin 1) (Fin 1) (Fin 1) (Fin 1) [7],
          ''results/WaDIQaM-FR-LIVE-EXP0.txt'' \<mapsto>
            TxtFile [UpdateLine ''0'' 1,
              ValResults 2 (Fin 1) (Fin 1) (Fin 1) (Fin 0) (Fin 0),
              TestResults 2 (Fin 1) (Fin 1) (Fin 1) (Fin 1) (Fin 0)],
          ''models/WaDIQaM-FR-LIVE-EXP0'' \<mapsto> StateDictFile 2,
          ''models/WaDIQaM-FR-LIVE-EXP0.full'' \<mapsto> FullModelFile 2),
       stdout := [UpdateLine ''0'' 1,
         ValResults 2 (Fin 1) (Fin 1) (Fin 1) (Fin 0) (Fin 0),
         TestResults 2 (Fin 1) (Fin 1) (Fin 1) (Fin 1) (Fin 0)],
       calls := demo_calls @ demo_calls\<rparr>"

section \<open>What the loops and one epoch do\<close>

lemma py_bind_Inl: "py_bind (Inl e) f = Inl e"
  by (simp add: py_bind_def)

lemma py_bind_Inr: "py_bind (Inr x) f = f x"
  by (simp add: py_bind_def)

lemma py_bind_eq_Inr: "py_bind m f = Inr y \<longleftrightarrow> (\<exists>x. m = Inr x \<and> f x = Inr y)"
  by (cases m) (simp_all add: py_bind_def)

lemma py_bindE:
  assumes "py_bind m f = Inr y"
  obtains x where "m = Inr x" and "f x = Inr y"
  using assms by (cases m) (simp_all add: py_bind_def)

lemma py_index_eq_Inr: "py_index xs k = Inr x \<longleftrightarrow> k < length xs \<and> x = xs ! k"
  by (auto simp: py_index_def)

subsection \<open>The evaluator on flat sequences\<close>

lemma measure_py_flattened:
  "measure_py sp kd pr sq q sq_std =
     py_bind (flattened sq) (\<lambda>xs.
     py_bind (flattened sq_std) (\<lambda>sds.
     py_bind (flattened q) (\<lambda>ys. measure_flat sp kd pr xs ys sds)))"
  by (simp add: measure_py_def flattened_def py_bind_def split: sum.splits)

lemma mean_squares:
  assumes "length ys = length xs" and "xs \<noteq> []"
  shows "np_sqrt (np_mean (map (\<lambda>x. x ^ 2) (map2 (-) xs ys))) = Fin (rmse_spec xs ys)"
proof -
  let ?L = "map (\<lambda>x. x ^ 2) (map2 (-) xs ys)"
  have len: "length ?L = length xs"
    using assms by simp
  have "sum_list ?L = (\<Sum>i = 0..<length ?L. ?L ! i)"
    by (rule sum_list_sum_nth)
  also have "\<dots> = (\<Sum>i<length xs. (xs ! i - ys ! i) ^ 2)"
    unfolding len using assms by (intro sum.cong) (auto simp: atLeast0LessThan)
  finally have s: "sum_list ?L = (\<Sum>i<length xs. (xs ! i - ys ! i) ^ 2)" .
  have nn: "\<not> (\<Sum>i<length xs. (xs ! i - ys ! i) ^ 2) / real (length xs) < 0"
    by (simp add: not_less divide_nonneg_nonneg sum_nonneg)
  from len assms(2) have ne: "?L \<noteq> []"
    by (metis length_0_conv)
  then have "np_mean ?L = Fin (sum_list ?L / real (length ?L))"
    by (simp only: np_mean_def if_False)
  then have "np_mean ?L = Fin ((\<Sum>i<length xs. (xs ! i - ys ! i) ^ 2) / real (length xs))"
    by (simp only: s len)
  then show ?thesis
    using nn by (simp only: np_sqrt.simps rmse_spec_def if_False)
qed

lemma mean_outliers:
  assumes "length ys = length xs" and "length sds = length xs" and "xs \<noteq> []"
  shows "np_mean (map bool_to_real
           (map2 (\<lambda>a t. a > t) (map abs (map2 (-) xs ys)) (map (\<lambda>s. 2 * s) sds)))
         = Fin (outlier_ratio_spec xs ys sds)"
proof -
  let ?L = "map bool_to_real
           (map2 (\<lambda>a t. a > t) (map abs (map2 (-) xs ys)) (map (\<lambda>s. 2 * s) sds))"
  have len: "length ?L = length xs"
    using assms by simp
  have "sum_list ?L = (\<Sum>i = 0..<length ?L. ?L ! i)"
    by (rule sum_list_sum_nth)
  also have "\<dots> = (\<Sum>i\<in>{..<length xs}. of_bool (\<bar>xs ! i - ys ! i\<bar> > 2 * sds ! i))"
    unfolding len using assms
    by (intro sum.cong) (auto simp: atLeast0LessThan bool_to_real_def)
  also have "\<dots> = real (card ({..<length xs} \<inter> {i. \<bar>xs ! i - ys ! i\<bar> > 2 * sds ! i}))"
    by (rule sum_of_bool_eq) (rule finite_lessThan)+
  also have "{..<length xs} \<inter> {i. \<bar>xs ! i - ys ! i\<bar> > 2 * sds ! i}
      = {i. i < length xs \<and> \<bar>xs ! i - ys ! i\<bar> > 2 * sds ! i}"
    by auto
  finally have s: "sum_list ?L = real (card {i. i < length xs \<and> \<bar>xs ! i - ys ! i\<bar> > 2 * sds ! i})" .
  from len assms(3) have ne: "?L \<noteq> []"
    by (metis length_0_conv)
  then have "np_mean ?L = Fin (sum_list ?L / real (length ?L))"
    by (simp only: np_mean_def if_False)
  then show ?thesis
    by (simp only: s len outlier_ratio_spec_def)
qed

lemma measure_flat_equal_lengths:
  assumes "xs \<noteq> []" and "length ys = length xs" and "length sds = length xs"
    and "sp xs ys = Inr srocc" and "kd xs ys = Inr krocc" and "pr xs ys = Inr plcc"
  shows "measure_flat sp kd pr xs ys sds =
     Inr (srocc, krocc, plcc, Fin (rmse_spec xs ys), Fin (outlier_ratio_spec xs ys sds))"
proof -
  have d: "np_elementwise (-) xs ys = Inr (map2 (-) xs ys)"
    using assms(2) by (simp add: np_elementwise_def)
  have o: "np_elementwise (\<lambda>a t. a > t) (map abs (map2 (-) xs ys)) (map (\<lambda>s. 2 * s) sds)
      = Inr (map2 (\<lambda>a t. a > t) (map abs (map2 (-) xs ys)) (map (\<lambda>s. 2 * s) sds))"
    using assms(2,3) by (simp add: np_elementwise_def)
  show ?thesis
    unfolding measure_flat_def assms(4-6) py_bind_Inr d o Let_def
    by (simp only: mean_squares [OF assms(2,1)] mean_outliers [OF assms(2,3,1)])
qed

subsection \<open>The loops\<close>

lemma train_loop_effect:
  "train_loop ev ds k (s, L) = (s', L') \<Longrightarrow>
     \<exists>n opt st. s' = s\<lparr>net := n, optimizer := opt, step := st,
         loop_i := (if ds = [] then loop_i s else Some (k + length ds - 1)),
         calls := calls s @ map TrainStep ds\<rparr>"
proof (induction ds arbitrary: k s L)
  case Nil
  then have "s' = s" by simp
  then show ?case
    by (intro exI [of _ "net s"] exI [of _ "optimizer s"] exI [of _ "step s"]) simp
next
  case (Cons d ds)
  obtain opt1 n1 loss where ts: "train_step ev (optimizer s) (net s) d = (opt1, n1, loss)"
    by (cases "train_step ev (optimizer s) (net s) d") auto
  let ?s1 = "s\<lparr>net := n1, optimizer := opt1, step := step s + 1, loop_i := Some k,
                 calls := calls s @ [TrainStep d]\<rparr>"
  from Cons.prems ts have "train_loop ev ds (Suc k) (?s1, L + loss) = (s', L')"
    by simp
  from Cons.IH [OF this] obtain n opt st where
    "s' = ?s1\<lparr>net := n, optimizer := opt, step := st,
         loop_i := (if ds = [] then loop_i ?s1 else Some (Suc k + length ds - 1)),
         calls := calls ?s1 @ map TrainStep ds\<rparr>"
    by blast
  then have "s' = s\<lparr>net := n, optimizer := opt, step := st,
         loop_i := (if d # ds = [] then loop_i s else Some (k + length (d # ds) - 1)),
         calls := calls s @ map TrainStep (d # ds)\<rparr>"
    by (cases "ds = []") simp_all
  then show ?case by blast
qed

lemma eval_loop_effect:
  "eval_loop ev sp ds k (s, L, q, sq, sq_std) = Inr (s', L', q', sq', sq_std') \<Longrightarrow>
     s' = s\<lparr>loop_i := (if ds = [] then loop_i s else Some (k + length ds - 1)),
            calls := calls s @ map (ForwardEval sp) ds\<rparr> \<and>
     L' = L + sum_list (map (\<lambda>d. fst (forward_eval ev (net s) d)) ds) \<and>
     q' = q @ map (\<lambda>d. snd (forward_eval ev (net s) d)) ds \<and>
     sq' = sq @ map (\<lambda>d. d ! 2) ds \<and>
     sq_std' = sq_std @ map (\<lambda>d. d ! 3) ds \<and>
     list_all (\<lambda>d. 3 < length d) ds"
proof (induction ds arbitrary: k s L q sq sq_std)
  case Nil
  then show ?case by simp
next
  case (Cons d ds)
  obtain loss pred where fe: "forward_eval ev (net s) d = (loss, pred)"
    by (cases "forward_eval ev (net s) d") auto
  from Cons.prems have len: "2 < length d" "3 < length d"
    by (auto simp: py_bind_eq_Inr py_index_eq_Inr)
  let ?s1 = "s\<lparr>loop_i := Some k, calls := calls s @ [ForwardEval sp d]\<rparr>"
  from Cons.prems fe len have
    "eval_loop ev sp ds (Suc k) (?s1, L + loss, q @ [pred], sq @ [d ! 2], sq_std @ [d ! 3])
       = Inr (s', L', q', sq', sq_std')"
    by (simp add: py_index_def py_bind_Inr)
  from Cons.IH [OF this] fe len show ?case
    by (cases "ds = []") (simp_all add: add.assoc)
qed


lemma train_pass_effect:
  assumes "train_pass ev e s = Inr (s1, trl)"
  shows "\<exists>n opt st i. s1 = s\<lparr>net := n, optimizer := opt, step := st, loop_i := i,
           calls := calls s @ NetTrain # map TrainStep (trainloader ev e)\<rparr>"
proof -
  obtain s' L where tloop: "train_loop ev (trainloader ev e) 0 (s\<lparr>calls := calls s @ [NetTrain]\<rparr>, 0) = (s', L)"
    by (cases "train_loop ev (trainloader ev e) 0 (s\<lparr>calls := calls s @ [NetTrain]\<rparr>, 0)") auto
  with assms have "s1 = s'"
    by (auto simp: train_pass_def split: option.splits)
  with train_loop_effect [OF tloop] show ?thesis
    by auto
qed

lemma eval_pass_effect:
  assumes "eval_pass ev sp loader s = Inr (s2, r)"
  shows "loader \<noteq> []"
    and "s2 = s\<lparr>loop_i := Some (length loader - 1),
            calls := calls s @ map (ForwardEval sp) loader @
              [Measure sp (Nested (ev_sq r)) (Nested (ev_q r)) (Nested (ev_sq_std r))]\<rparr>"
    and "ev_loss r = sum_list (map (\<lambda>d. fst (forward_eval ev (net s) d)) loader) / real (length loader)"
    and "ev_q r = map (\<lambda>d. snd (forward_eval ev (net s) d)) loader"
    and "ev_sq r = map (\<lambda>d. d ! 2) loader"
    and "ev_sq_std r = map (\<lambda>d. d ! 3) loader"
    and "measure_py (spearmanr ev) (kendalltau ev) (pearsonr ev)
       (Nested (ev_sq r)) (Nested (ev_q r)) (Nested (ev_sq_std r)) = Inr (ev_measure r)"
    and "list_all (\<lambda>d. 3 < length d) loader"
proof -
  from assms obtain s1 L q sq sq_std where
    loop: "eval_loop ev sp loader 0 (s, 0, [], [], []) = Inr (s1, L, q, sq, sq_std)" and
    rest: "(if loader = [] then Inl TypeError
       else case loop_i s1 of
         None \<Rightarrow> Inl NameError
       | Some i \<Rightarrow>
           let loss = L / (real i + 1);
               s2 = s1\<lparr>calls := calls s1 @ [Measure sp (Nested sq) (Nested q) (Nested sq_std)]\<rparr>
           in py_bind (measure_py (spearmanr ev) (kendalltau ev) (pearsonr ev)
                         (Nested sq) (Nested q) (Nested sq_std)) (\<lambda>mv.
              Inr (s2, \<lparr>ev_loss = loss, ev_measure = mv, ev_q = q, ev_sq = sq,
                        ev_sq_std = sq_std\<rparr>))) = Inr (s2, r)"
    unfolding eval_pass_def py_bind_eq_Inr by (auto split: prod.splits)
  from rest show ne: "loader \<noteq> []"
    by (auto split: if_splits)
  note eff = eval_loop_effect [OF loop]
  from eff ne have i: "loop_i s1 = Some (length loader - 1)"
    by simp
  from ne have len: "real (length loader - 1) + 1 = real (length loader)"
    by (cases loader) simp_all
  from rest ne i obtain mv where
    mv: "measure_py (spearmanr ev) (kendalltau ev) (pearsonr ev)
           (Nested sq) (Nested q) (Nested sq_std) = Inr mv" and
    s2: "s2 = s1\<lparr>calls := calls s1 @ [Measure sp (Nested sq) (Nested q) (Nested sq_std)]\<rparr>" and
    r: "r = \<lparr>ev_loss = L / (real (length loader - 1) + 1), ev_measure = mv, ev_q = q,
             ev_sq = sq, ev_sq_std = sq_std\<rparr>"
    by (auto simp: Let_def py_bind_eq_Inr)
  from eff ne mv s2 r len show
    "s2 = s\<lparr>loop_i := Some (length loader - 1),
            calls := calls s @ map (ForwardEval sp) loader @
              [Measure sp (Nested (ev_sq r)) (Nested (ev_q r)) (Nested (ev_sq_std r))]\<rparr>"
    "ev_loss r = sum_list (map (\<lambda>d. fst (forward_eval ev (net s) d)) loader) / real (length loader)"
    "ev_q r = map (\<lambda>d. snd (forward_eval ev (net s) d)) loader"
    "ev_sq r = map (\<lambda>d. d ! 2) loader"
    "ev_sq_std r = map (\<lambda>d. d ! 3) loader"
    "measure_py (spearmanr ev) (kendalltau ev) (pearsonr ev)
       (Nested (ev_sq r)) (Nested (ev_q r)) (Nested (ev_sq_std r)) = Inr (ev_measure r)"
    "list_all (\<lambda>d. 3 < length d) loader"
    by simp_all
qed

lemma updated_epochs_append:
  "updated_epochs (xs @ ys) = updated_epochs xs @ updated_epochs ys"
  by (induction xs rule: updated_epochs.induct) simp_all

lemma update_best_taken:
  assumes "update_best c ev e v t s = Inr s'" and "update_guard c e (ev_loss v) s"
  shows "best_val_criterion s' = ev_loss v \<and>
     files s' (trained_model_file c) = Some (StateDictFile (state_dict ev (net s))) \<and>
     files s' (trained_model_file c @ ''.full'') = Some (FullModelFile (net s)) \<and>
     updated_epochs (stdout s') = updated_epochs (stdout s) @ [e] \<and>
     net s' = net s \<and> val_loss s' = val_loss s \<and> val_metrics s' = val_metrics s \<and>
     calls s' = calls s"
proof -
  obtain a b c1 d e1 where m: "ev_measure v = (a, b, c1, d, e1)"
    by (cases "ev_measure v") auto
  show ?thesis
  proof (cases "test_enabled c")
    case False
    with assms m show ?thesis
      by (auto simp: update_best_def Let_def py_bind_Inr updated_epochs_append)
  next
    case True
    with assms m obtain r where t: "t = Some r"
      by (cases t) (simp_all add: update_best_def Let_def py_bind_Inl)
    obtain a' b' c' d' e' where m': "ev_measure r = (a', b', c', d', e')"
      by (cases "ev_measure r") auto
    from assms m True t m' show ?thesis
      by (auto simp: update_best_def Let_def py_bind_Inr updated_epochs_append)
  qed
qed

lemma update_best_skipped:
  assumes "update_best c ev e v t s = Inr s'" and "\<not> update_guard c e (ev_loss v) s"
  shows "s' = s"
  using assms by (simp add: update_best_def)


lemma log_scalars_effect:
  assumes "log_scalars c e trl v t s = Inr s'"
  shows "\<exists>sc. s' = s\<lparr>scalars := sc\<rparr>"
proof (cases "enableTensorboard c")
  case False
  with assms have "s' = s\<lparr>scalars := scalars s\<rparr>"
    by (simp add: log_scalars_def)
  then show ?thesis ..
next
  case True
  with assms show ?thesis
    by (auto simp: log_scalars_def Let_def split: prod.splits if_splits option.splits)
qed

lemma epoch_body_effect:
  assumes "epoch_body c ev e s = Inr s'"
  shows "\<exists>s5 v t. update_best c ev e v t s5 = Inr s' \<and>
     best_val_criterion s5 = best_val_criterion s \<and> files s5 = files s \<and>
     stdout s5 = stdout s \<and>
     val_loss s5 = Some (ev_loss v) \<and> val_metrics s5 = Some (ev_measure v) \<and>
     valloader ev \<noteq> [] \<and>
     ev_loss v = sum_list (map (\<lambda>d. fst (forward_eval ev (net s5) d)) (valloader ev))
                   / real (length (valloader ev)) \<and>
     ev_q v = map (\<lambda>d. snd (forward_eval ev (net s5) d)) (valloader ev) \<and>
     ev_sq v = map (\<lambda>d. d ! 2) (valloader ev) \<and>
     ev_sq_std v = map (\<lambda>d. d ! 3) (valloader ev) \<and>
     measure_py (spearmanr ev) (kendalltau ev) (pearsonr ev)
       (Nested (ev_sq v)) (Nested (ev_q v)) (Nested (ev_sq_std v)) = Inr (ev_measure v) \<and>
     list_all (\<lambda>d. 3 < length d) (valloader ev) \<and>
     (test_enabled c \<longleftrightarrow> t \<noteq> None) \<and>
     calls s5 = calls s @ NetTrain # map TrainStep (trainloader ev e) @
       NetEval # map (ForwardEval Val) (valloader ev) @
       Measure Val (Nested (ev_sq v)) (Nested (ev_q v)) (Nested (ev_sq_std v)) #
       test_calls ev t"
proof -
  from assms obtain s1 trl s2 v s4 t s5 where
    tp: "train_pass ev e s = Inr (s1, trl)" and
    vp: "eval_pass ev Val (valloader ev) (s1\<lparr>calls := calls s1 @ [NetEval]\<rparr>) = Inr (s2, v)" and
    te: "(if test_enabled c
          then py_bind (eval_pass ev Test (testloader ev)
                 (s2\<lparr>val_loss := Some (ev_loss v), val_metrics := Some (ev_measure v)\<rparr>))
                 (\<lambda>(s4, r). Inr (s4, Some r))
          else Inr (s2\<lparr>val_loss := Some (ev_loss v), val_metrics := Some (ev_measure v)\<rparr>, None))
         = Inr (s4, t)" and
    lg: "log_scalars c e trl v t s4 = Inr s5" and
    ub: "update_best c ev e v t s5 = Inr s'"
    by (auto simp: epoch_body_def Let_def split: prod.splits elim!: py_bindE)
  from train_pass_effect [OF tp] obtain n opt st i where
    s1: "s1 = s\<lparr>net := n, optimizer := opt, step := st, loop_i := i,
           calls := calls s @ NetTrain # map TrainStep (trainloader ev e)\<rparr>"
    by blast
  note v = eval_pass_effect(1-6) [OF vp]
  note vm = eval_pass_effect(7) [OF vp]
  let ?s3 = "s2\<lparr>val_loss := Some (ev_loss v), val_metrics := Some (ev_measure v)\<rparr>"
  have s4: "(test_enabled c \<longleftrightarrow> t \<noteq> None) \<and>
      (\<exists>j. s4 = ?s3\<lparr>loop_i := j, calls := calls ?s3 @ test_calls ev t\<rparr>)"
  proof (cases "test_enabled c")
    case False
    with te have "s4 = ?s3\<lparr>loop_i := loop_i ?s3, calls := calls ?s3 @ test_calls ev t\<rparr>" "t = None"
      by (simp_all add: test_calls_def)
    with False show ?thesis by blast
  next
    case True
    with te obtain r where
      tp': "eval_pass ev Test (testloader ev) ?s3 = Inr (s4, r)" and t: "t = Some r"
      by (auto simp: py_bind_eq_Inr)
    from eval_pass_effect(2) [OF tp'] t True show ?thesis
      by (auto simp: test_calls_def)
  qed
  then obtain j where s4': "s4 = ?s3\<lparr>loop_i := j, calls := calls ?s3 @ test_calls ev t\<rparr>"
    and tt: "test_enabled c \<longleftrightarrow> t \<noteq> None"
    by blast
  from log_scalars_effect [OF lg] obtain sc where s5: "s5 = s4\<lparr>scalars := sc\<rparr>"
    by blast
  have n5: "net s5 = net s1"
    using v(2) s4' s5 by simp
  have c2: "calls s2 = calls s @ NetTrain # map TrainStep (trainloader ev e) @
       NetEval # map (ForwardEval Val) (valloader ev) @
       [Measure Val (Nested (ev_sq v)) (Nested (ev_q v)) (Nested (ev_sq_std v))]"
    using v(2) s1 by simp
  have f1: "best_val_criterion s5 = best_val_criterion s" "files s5 = files s"
      "stdout s5 = stdout s"
    using v(2) s1 s4' s5 by simp_all
  have f2: "val_loss s5 = Some (ev_loss v)" "val_metrics s5 = Some (ev_measure v)"
    using s4' s5 by simp_all
  have f3: "calls s5 = calls s @ NetTrain # map TrainStep (trainloader ev e) @
       NetEval # map (ForwardEval Val) (valloader ev) @
       Measure Val (Nested (ev_sq v)) (Nested (ev_q v)) (Nested (ev_sq_std v)) #
       test_calls ev t"
    using c2 s4' s5 by simp
  have f4: "ev_loss v = sum_list (map (\<lambda>d. fst (forward_eval ev (net s5) d)) (valloader ev))
                   / real (length (valloader ev))"
      "ev_q v = map (\<lambda>d. snd (forward_eval ev (net s5) d)) (valloader ev)"
    using v(3,4) n5 by simp_all
  note ln = eval_pass_effect(8) [OF vp]
  from ub f1 f2 f3 f4 v(1,5,6) vm ln tt show ?thesis
    by blast
qed

lemma test_calls_no_val:
  "filter is_train_step (test_calls ev t) = []" "filter is_val_measure (test_calls ev t) = []"
  by (cases t; simp add: test_calls_def filter_map o_def)+

lemma update_best_frame:
  assumes "update_best c ev e v t s = Inr s'"
  shows "net s' = net s" "val_loss s' = val_loss s" "val_metrics s' = val_metrics s"
    "calls s' = calls s"
proof -
  have "net s' = net s \<and> val_loss s' = val_loss s \<and> val_metrics s' = val_metrics s \<and>
      calls s' = calls s"
  proof (cases "update_guard c e (ev_loss v) s")
    case True
    from update_best_taken [OF assms True] show ?thesis by simp
  next
    case False
    from update_best_skipped [OF assms False] show ?thesis by simp
  qed
  then show "net s' = net s" "val_loss s' = val_loss s" "val_metrics s' = val_metrics s"
    "calls s' = calls s"
    by simp_all
qed

lemma epoch_body_val_loss:
  assumes "epoch_body c ev e s = Inr s'"
  shows "\<exists>vl. val_loss s' = Some vl"
proof -
  from epoch_body_effect [OF assms] obtain s5 v t where
    ub: "update_best c ev e v t s5 = Inr s'" and vl: "val_loss s5 = Some (ev_loss v)"
    by blast
  show ?thesis
  proof (cases "update_guard c e (ev_loss v) s5")
    case True
    from update_best_taken [OF ub True] vl show ?thesis by simp
  next
    case False
    from update_best_skipped [OF ub False] vl show ?thesis by simp
  qed
qed

lemma epoch_body_taken:
  assumes "epoch_body c ev e s = Inr s'" and "val_loss s' = Some vl"
    and "update_guard c e vl s"
  shows "best_val_criterion s' = vl"
    and "files s' (trained_model_file c) = Some (StateDictFile (state_dict ev (net s')))"
    and "files s' (trained_model_file c @ ''.full'') = Some (FullModelFile (net s'))"
    and "updated_epochs (stdout s') = updated_epochs (stdout s) @ [e]"
proof -
  from epoch_body_effect [OF assms(1)] obtain s5 v t where
    ub: "update_best c ev e v t s5 = Inr s'" and vl: "val_loss s5 = Some (ev_loss v)" and
    fr: "best_val_criterion s5 = best_val_criterion s" "stdout s5 = stdout s"
    by blast
  have same: "val_loss s' = val_loss s5"
  proof (cases "update_guard c e (ev_loss v) s5")
    case True
    from update_best_taken [OF ub True] show ?thesis by simp
  next
    case False
    from update_best_skipped [OF ub False] show ?thesis by simp
  qed
  with vl assms(2) have "vl = ev_loss v" by simp
  with assms(3) fr(1) have g: "update_guard c e (ev_loss v) s5"
    by (simp add: update_guard_def)
  note t = update_best_taken [OF ub g]
  from t \<open>vl = ev_loss v\<close> show "best_val_criterion s' = vl" by simp
  from t show "files s' (trained_model_file c) = Some (StateDictFile (state_dict ev (net s')))"
    by simp
  from t show "files s' (trained_model_file c @ ''.full'') = Some (FullModelFile (net s'))"
    by simp
  from t fr(2) show "updated_epochs (stdout s') = updated_epochs (stdout s) @ [e]"
    by simp
qed

lemma epoch_body_skipped:
  assumes "epoch_body c ev e s = Inr s'" and "val_loss s' = Some vl"
    and "\<not> update_guard c e vl s"
  shows "best_val_criterion s' = best_val_criterion s"
    and "files s' = files s"
    and "stdout s' = stdout s"
proof -
  from epoch_body_effect [OF assms(1)] obtain s5 v t where
    ub: "update_best c ev e v t s5 = Inr s'" and vl: "val_loss s5 = Some (ev_loss v)" and
    fr: "best_val_criterion s5 = best_val_criterion s" "files s5 = files s"
      "stdout s5 = stdout s"
    by blast
  have same: "val_loss s' = val_loss s5"
  proof (cases "update_guard c e (ev_loss v) s5")
    case True
    from update_best_taken [OF ub True] show ?thesis by simp
  next
    case False
    from update_best_skipped [OF ub False] show ?thesis by simp
  qed
  with vl assms(2) have "vl = ev_loss v" by simp
  with assms(3) fr(1) have g: "\<not> update_guard c e (ev_loss v) s5"
    by (simp add: update_guard_def)
  from update_best_skipped [OF ub g] fr
  show "best_val_criterion s' = best_val_criterion s" "files s' = files s"
    "stdout s' = stdout s"
    by simp_all
qed

lemma run_epochs_append:
  "run_epochs c ev (xs @ ys) s = py_bind (run_epochs c ev xs s) (run_epochs c ev ys)"
proof (induction xs arbitrary: s)
  case Nil
  show ?case by (simp add: py_bind_Inr)
next
  case (Cons x xs)
  show ?case
    by (cases "epoch_body c ev x s") (simp_all add: Cons.IH py_bind_Inl py_bind_Inr)
qed

lemma after_epochs_0: "after_epochs c ev s0 0 = Inr s0"
  by (simp add: after_epochs_def)

lemma after_epochs_Suc:
  "after_epochs c ev s0 (Suc k) = py_bind (after_epochs c ev s0 k) (epoch_body c ev k)"
proof -
  have "run_epochs c ev [k] = epoch_body c ev k"
    by (rule ext) (simp add: py_bind_def split: sum.splits)
  then show ?thesis
    by (simp add: after_epochs_def run_epochs_append)
qed

lemma after_epochs_SucE:
  assumes "after_epochs c ev s0 (Suc k) = Inr s'"
  obtains s where "after_epochs c ev s0 k = Inr s" and "epoch_body c ev k s = Inr s'"
  using assms unfolding after_epochs_Suc by (rule py_bindE)

lemma val_loss_of_epoch_eq:
  assumes "after_epochs c ev s0 (Suc e) = Inr s"
  shows "val_loss_of_epoch c ev s0 e = val_loss s"
  using assms by (simp add: val_loss_of_epoch_def)

lemma net_of_epoch_eq:
  assumes "after_epochs c ev s0 (Suc e) = Inr s"
  shows "net_of_epoch c ev s0 e = Some (net s)"
  using assms by (simp add: net_of_epoch_def)

text \<open>One epoch never raises the criterion.\<close>

lemma epoch_body_best_le:
  assumes "epoch_body c ev e s = Inr s'"
  shows "best_val_criterion s' \<le> best_val_criterion s"
proof -
  from epoch_body_val_loss [OF assms] obtain vl where vl: "val_loss s' = Some vl" ..
  show ?thesis
  proof (cases "update_guard c e vl s")
    case True
    from epoch_body_taken(1) [OF assms vl True] True show ?thesis
      by (simp add: update_guard_def)
  next
    case False
    from epoch_body_skipped(1) [OF assms vl False] show ?thesis by simp
  qed
qed


lemma run_tracks_best:
  assumes "after_epochs c ev s0 k = Inr s"
  shows "(\<forall>e<k. eligible c e \<longrightarrow>
            (\<forall>v. val_loss_of_epoch c ev s0 e = Some v \<longrightarrow> best_val_criterion s \<le> v)) \<and>
         ((best_val_criterion s = best_val_criterion s0 \<and> files s = files s0 \<and>
           stdout s = stdout s0) \<or>
          (\<exists>e<k. eligible c e \<and> val_loss_of_epoch c ev s0 e = Some (best_val_criterion s) \<and>
             best_val_criterion s < best_val_criterion s0 \<and>
             (\<forall>e'<e. eligible c e' \<longrightarrow>
                (\<forall>v'. val_loss_of_epoch c ev s0 e' = Some v' \<longrightarrow> best_val_criterion s < v')) \<and>
             (\<exists>ne. net_of_epoch c ev s0 e = Some ne \<and>
                files s (trained_model_file c) = Some (StateDictFile (state_dict ev ne)) \<and>
                files s (trained_model_file c @ ''.full'') = Some (FullModelFile ne)) \<and>
             (\<exists>pre. updated_epochs (stdout s) = pre @ [e])))"
  using assms
proof (induction k arbitrary: s)
  case 0
  then have "s = s0" by (simp add: after_epochs_0)
  then show ?case by simp
next
  case (Suc k)
  from Suc.prems obtain sk where
    sk: "after_epochs c ev s0 k = Inr sk" and eb: "epoch_body c ev k sk = Inr s"
    by (rule after_epochs_SucE)
  from epoch_body_val_loss [OF eb] obtain vl where vl: "val_loss s = Some vl" ..
  with Suc.prems have vk: "val_loss_of_epoch c ev s0 k = Some vl"
    by (simp add: val_loss_of_epoch_eq)
  from Suc.prems have nk: "net_of_epoch c ev s0 k = Some (net s)"
    by (rule net_of_epoch_eq)
  note IH = Suc.IH [OF sk]
  from IH have IHa: "\<And>e v. e < k \<Longrightarrow> eligible c e \<Longrightarrow> val_loss_of_epoch c ev s0 e = Some v
      \<Longrightarrow> best_val_criterion sk \<le> v"
    by blast
  have le0: "best_val_criterion sk \<le> best_val_criterion s0"
    using IH by auto
  show ?case
  proof (cases "update_guard c k vl sk")
    case True
    note t = epoch_body_taken [OF eb vl True]
    from True have lt: "vl < best_val_criterion sk" and el: "eligible c k"
      by (simp_all add: update_guard_def eligible_def)
    have a: "\<forall>e<Suc k. eligible c e \<longrightarrow>
            (\<forall>v. val_loss_of_epoch c ev s0 e = Some v \<longrightarrow> best_val_criterion s \<le> v)"
    proof (intro allI impI)
      fix e v
      assume e: "e < Suc k" "eligible c e" "val_loss_of_epoch c ev s0 e = Some v"
      show "best_val_criterion s \<le> v"
      proof (cases "e = k")
        case True
        with e vk t(1) show ?thesis by simp
      next
        case False
        with e have "e < k" by simp
        from IHa [OF this e(2,3)] lt t(1) show ?thesis by simp
      qed
    qed
    have b: "\<exists>e<Suc k. eligible c e \<and> val_loss_of_epoch c ev s0 e = Some (best_val_criterion s) \<and>
             best_val_criterion s < best_val_criterion s0 \<and>
             (\<forall>e'<e. eligible c e' \<longrightarrow>
                (\<forall>v'. val_loss_of_epoch c ev s0 e' = Some v' \<longrightarrow> best_val_criterion s < v')) \<and>
             (\<exists>ne. net_of_epoch c ev s0 e = Some ne \<and>
                files s (trained_model_file c) = Some (StateDictFile (state_dict ev ne)) \<and>
                files s (trained_model_file c @ ''.full'') = Some (FullModelFile ne)) \<and>
             (\<exists>pre. updated_epochs (stdout s) = pre @ [e])"
    proof (intro exI [of _ k] conjI)
      show "k < Suc k" by simp
      show "eligible c k" by (rule el)
      from vk t(1) show "val_loss_of_epoch c ev s0 k = Some (best_val_criterion s)" by simp
      from t(1) lt le0 show "best_val_criterion s < best_val_criterion s0" by simp
      show "\<forall>e'<k. eligible c e' \<longrightarrow>
          (\<forall>v'. val_loss_of_epoch c ev s0 e' = Some v' \<longrightarrow> best_val_criterion s < v')"
      proof (intro allI impI)
        fix e' v'
        assume "e' < k" "eligible c e'" "val_loss_of_epoch c ev s0 e' = Some v'"
        from IHa [OF this] lt t(1) show "best_val_criterion s < v'" by simp
      qed
      from nk t(2,3) show "\<exists>ne. net_of_epoch c ev s0 k = Some ne \<and>
          files s (trained_model_file c) = Some (StateDictFile (state_dict ev ne)) \<and>
          files s (trained_model_file c @ ''.full'') = Some (FullModelFile ne)"
        by simp
      from t(4) show "\<exists>pre. updated_epochs (stdout s) = pre @ [k]" by blast
    qed
    from a b show ?thesis by blast
  next
    case False
    note t = epoch_body_skipped [OF eb vl False]
    have a: "\<forall>e<Suc k. eligible c e \<longrightarrow>
            (\<forall>v. val_loss_of_epoch c ev s0 e = Some v \<longrightarrow> best_val_criterion s \<le> v)"
    proof (intro allI impI)
      fix e v
      assume e: "e < Suc k" "eligible c e" "val_loss_of_epoch c ev s0 e = Some v"
      show "best_val_criterion s \<le> v"
      proof (cases "e = k")
        case True
        with e vk False t(1) show ?thesis
          by (simp add: update_guard_def eligible_def)
      next
        case False
        with e have "e < k" by simp
        from IHa [OF this e(2,3)] t(1) show ?thesis by simp
      qed
    qed
    from IH have "(best_val_criterion sk = best_val_criterion s0 \<and> files sk = files s0 \<and>
           stdout sk = stdout s0) \<or>
          (\<exists>e<k. eligible c e \<and> val_loss_of_epoch c ev s0 e = Some (best_val_criterion sk) \<and>
             best_val_criterion sk < best_val_criterion s0 \<and>
             (\<forall>e'<e. eligible c e' \<longrightarrow>
                (\<forall>v'. val_loss_of_epoch c ev s0 e' = Some v' \<longrightarrow> best_val_criterion sk < v')) \<and>
             (\<exists>ne. net_of_epoch c ev s0 e = Some ne \<and>
                files sk (trained_model_file c) = Some (StateDictFile (state_dict ev ne)) \<and>
                files sk (trained_model_file c @ ''.full'') = Some (FullModelFile ne)) \<and>
             (\<exists>pre. updated_epochs (stdout sk) = pre @ [e]))"
      by blast
    with t have b: "(best_val_criterion s = best_val_criterion s0 \<and> files s = files s0 \<and>
           stdout s = stdout s0) \<or>
          (\<exists>e<Suc k. eligible c e \<and> val_loss_of_epoch c ev s0 e = Some (best_val_criterion s) \<and>
             best_val_criterion s < best_val_criterion s0 \<and>
             (\<forall>e'<e. eligible c e' \<longrightarrow>
                (\<forall>v'. val_loss_of_epoch c ev s0 e' = Some v' \<longrightarrow> best_val_criterion s < v')) \<and>
             (\<exists>ne. net_of_epoch c ev s0 e = Some ne \<and>
                files s (trained_model_file c) = Some (StateDictFile (state_dict ev ne)) \<and>
                files s (trained_model_file c @ ''.full'') = Some (FullModelFile ne)) \<and>
             (\<exists>pre. updated_epochs (stdout s) = pre @ [e]))"
      by (metis less_Suc_eq)
    from a b show ?thesis by blast
  qed
qed

text \<open>
  Line 172 divides with \<open>/\<close>. Whether that is true division or, as in Python 2, floor
  division of integers, the comparison with the integer \<open>epoch\<close> has the same outcome.
\<close>

lemma eligible_floor: "eligible c e \<longleftrightarrow> n_epochs c div 6 < int e"
proof -
  have "n_epochs c div 6 = \<lfloor>real_of_int (n_epochs c) / real_of_int 6\<rfloor>"
    by (simp only: floor_divide_of_int_eq)
  then have "n_epochs c div 6 < int e \<longleftrightarrow> real_of_int (n_epochs c) / 6 < real_of_int (int e)"
    by (simp add: floor_less_iff)
  then show ?thesis
    by (simp add: eligible_def)
qed

lemma run_updated_epochs:
  assumes "after_epochs c ev s0 k = Inr s"
  shows "set (updated_epochs (stdout s)) \<subseteq>
           set (updated_epochs (stdout s0)) \<union> {e. e < k \<and> eligible c e}"
  using assms
proof (induction k arbitrary: s)
  case 0
  then show ?case by (simp add: after_epochs_0)
next
  case (Suc k)
  from Suc.prems obtain sk where
    sk: "after_epochs c ev s0 k = Inr sk" and eb: "epoch_body c ev k sk = Inr s"
    by (rule after_epochs_SucE)
  from epoch_body_val_loss [OF eb] obtain vl where vl: "val_loss s = Some vl" ..
  show ?case
  proof (cases "update_guard c k vl sk")
    case True
    then have "eligible c k"
      by (simp add: update_guard_def eligible_def)
    with epoch_body_taken(4) [OF eb vl True] Suc.IH [OF sk] show ?thesis
      by auto
  next
    case False
    with epoch_body_skipped(3) [OF eb vl False] Suc.IH [OF sk] show ?thesis
      by auto
  qed
qed

section \<open>The small run, evaluated\<close>

lemmas demo_defs = demo_env_def demo_conf_def demo_init_def init_state_def dataset_batch_def
  epoch_body_def train_pass_def eval_pass_def py_index_def measure_py_def measure_flat_def
  np_asarray_def np_reshape_flat_def np_elementwise_def np_mean_def bool_to_real_def
  test_enabled_def log_scalars_def update_best_def update_guard_def
  trained_model_file_def save_result_file_def np_save_path_def ends_with_def
  py_bind_def Let_def

lemma demo_epoch_0: "epoch_body demo_conf demo_env 0 demo_init = Inr demo_state1"
  by (simp add: demo_state1_def demo_calls_def demo_defs)

lemma demo_epoch_1: "epoch_body demo_conf demo_env 1 demo_state1 = Inr demo_state2"
  by (simp add: demo_state2_def demo_state1_def demo_calls_def demo_defs)

lemma demo_after_1: "after_epochs demo_conf demo_env demo_init 1 = Inr demo_state1"
proof -
  have "after_epochs demo_conf demo_env demo_init (Suc 0) = Inr demo_state1"
    by (simp only: after_epochs_Suc after_epochs_0 py_bind_Inr demo_epoch_0)
  then show ?thesis by (simp only: One_nat_def)
qed

lemma demo_after_2: "after_epochs demo_conf demo_env demo_init 2 = Inr demo_state2"
proof -
  have "after_epochs demo_conf demo_env demo_init (Suc 1) = Inr demo_state2"
    by (simp only: after_epochs_Suc demo_after_1 py_bind_Inr demo_epoch_1)
  then show ?thesis by (simp only: Suc_1)
qed

lemma demo_val_losses:
  "val_loss_of_epoch demo_conf demo_env demo_init 0 = Some 1"
  "val_loss_of_epoch demo_conf demo_env demo_init 1 = Some 2"
  "net_of_epoch demo_conf demo_env demo_init 0 = Some 1"
  "net_of_epoch demo_conf demo_env demo_init 1 = Some 2"
proof -
  have 1: "after_epochs demo_conf demo_env demo_init (Suc 0) = Inr demo_state1"
    using demo_after_1 by (simp only: One_nat_def)
  have 2: "after_epochs demo_conf demo_env demo_init (Suc 1) = Inr demo_state2"
    using demo_after_2 by (simp only: Suc_1)
  show "val_loss_of_epoch demo_conf demo_env demo_init 0 = Some 1"
    by (simp add: val_loss_of_epoch_eq [OF 1] demo_state1_def)
  show "val_loss_of_epoch demo_conf demo_env demo_init 1 = Some 2"
    using val_loss_of_epoch_eq [OF 2] by (simp add: demo_state2_def)
  show "net_of_epoch demo_conf demo_env demo_init 0 = Some 1"
    by (simp add: net_of_epoch_eq [OF 1] demo_state1_def)
  show "net_of_epoch demo_conf demo_env demo_init 1 = Some 2"
    using net_of_epoch_eq [OF 2] by (simp add: demo_state2_def)
qed

lemma demo1_after_1: "after_epochs demo_conf1 demo_env demo_init 1 = Inr demo_state1"
proof -
  have "epoch_body demo_conf1 demo_env 0 demo_init = Inr demo_state1"
    by (simp add: demo_conf1_def demo_state1_def demo_calls_def demo_defs)
  then have "after_epochs demo_conf1 demo_env demo_init (Suc 0) = Inr demo_state1"
    by (simp only: after_epochs_Suc after_epochs_0 py_bind_Inr)
  then show ?thesis by (simp only: One_nat_def)
qed

lemma demo_flattened:
  "flattened (Nested [Scalar 3, Scalar 5]) = Inr [3, 5]"
  "flattened (Nested [Nested [Scalar 3, Scalar 5]]) = Inr [3, 5]"
  "flattened (Nested [Nested [Scalar 1], Nested [Scalar 3]]) = Inr [1, 3]"
  "flattened (Nested [Scalar 1, Scalar 3]) = Inr [1, 3]"
  "flattened (Nested [Scalar (1/2), Scalar 2]) = Inr [1/2, 2]"
  by (simp_all add: flattened_def np_asarray_def np_reshape_flat_def py_bind_def)

section \<open>The properties\<close>

text \<open>
  C1, as stated, fails. In the small run of two epochs the validation loss is 1 in epoch
  0 and 2 in epoch 1, so the minimum over all epochs is in epoch 0; but line 172 admits
  only \<open>epoch > n_epochs/6\<close>, and the checkpoint the run leaves is that of epoch 1.
\<close>

theorem best_checkpoint_counterexample:
  "after_epochs demo_conf demo_env demo_init (nat (n_epochs demo_conf)) = Inr demo_state2 \<and>
   val_loss_of_epoch demo_conf demo_env demo_init 0 = Some 1 \<and>
   val_loss_of_epoch demo_conf demo_env demo_init 1 = Some 2 \<and>
   net_of_epoch demo_conf demo_env demo_init 0 = Some 1 \<and>
   net_of_epoch demo_conf demo_env demo_init 1 = Some 2 \<and>
   files demo_state2 (trained_model_file demo_conf) = Some (StateDictFile (state_dict demo_env 2)) \<and>
   files demo_state2 (trained_model_file demo_conf) \<noteq> Some (StateDictFile (state_dict demo_env 1))"
proof -
  have "nat (n_epochs demo_conf) = 2"
    by (simp add: demo_conf_def)
  then have run: "after_epochs demo_conf demo_env demo_init (nat (n_epochs demo_conf)) = Inr demo_state2"
    by (simp only: demo_after_2)
  have f: "files demo_state2 (trained_model_file demo_conf) = Some (StateDictFile (state_dict demo_env 2))"
    "files demo_state2 (trained_model_file demo_conf) \<noteq> Some (StateDictFile (state_dict demo_env 1))"
    by (simp_all add: demo_state2_def trained_model_file_def demo_conf_def demo_env_def)
  from run demo_val_losses f show ?thesis
    by blast
qed

text \<open>
  C1, amended. When the epoch loop has ended, the checkpoint files hold the network of
  the first epoch whose validation loss is minimal among the epochs
  \<open>e > n_epochs/6\<close>, provided that loss is below 10000, the initial criterion; and when no
  epoch \<open>e > n_epochs/6\<close> has a validation loss below 10000, the run has written no file.
\<close>

theorem best_checkpoint_is_first_minimum_after_first_sixth:
  assumes run: "after_epochs c ev (init_state net0 opt0 fs0) (nat (n_epochs c)) = Inr s"
  shows "(\<forall>e v. e < nat (n_epochs c) \<and> real_of_int (n_epochs c) / 6 < real e \<and>
            val_loss_of_epoch c ev (init_state net0 opt0 fs0) e = Some v \<and> v < 10000 \<and>
            (\<forall>e' v'. e' < nat (n_epochs c) \<and> real_of_int (n_epochs c) / 6 < real e' \<and>
               val_loss_of_epoch c ev (init_state net0 opt0 fs0) e' = Some v' \<longrightarrow>
               v \<le> v' \<and> (e' < e \<longrightarrow> v < v')) \<longrightarrow>
            (\<exists>ne. net_of_epoch c ev (init_state net0 opt0 fs0) e = Some ne \<and>
               files s (trained_model_file c) = Some (StateDictFile (state_dict ev ne)) \<and>
               files s (trained_model_file c @ ''.full'') = Some (FullModelFile ne)) \<and>
            best_val_criterion s = v) \<and>
         ((\<forall>e v. e < nat (n_epochs c) \<and> real_of_int (n_epochs c) / 6 < real e \<and>
             val_loss_of_epoch c ev (init_state net0 opt0 fs0) e = Some v \<longrightarrow> 10000 \<le> v) \<longrightarrow>
          files s = fs0 \<and> best_val_criterion s = 10000)"
proof -
  let ?s0 = "init_state net0 opt0 fs0"
  let ?n = "nat (n_epochs c)"
  have b0: "best_val_criterion ?s0 = 10000" "files ?s0 = fs0"
    by (simp_all add: init_state_def)
  from run_tracks_best [OF run] have
    lower: "\<And>e v. e < ?n \<Longrightarrow> eligible c e \<Longrightarrow> val_loss_of_epoch c ev ?s0 e = Some v
        \<Longrightarrow> best_val_criterion s \<le> v" and
    shape: "(best_val_criterion s = best_val_criterion ?s0 \<and> files s = files ?s0 \<and>
           stdout s = stdout ?s0) \<or>
          (\<exists>e<?n. eligible c e \<and> val_loss_of_epoch c ev ?s0 e = Some (best_val_criterion s) \<and>
             best_val_criterion s < best_val_criterion ?s0 \<and>
             (\<forall>e'<e. eligible c e' \<longrightarrow>
                (\<forall>v'. val_loss_of_epoch c ev ?s0 e' = Some v' \<longrightarrow> best_val_criterion s < v')) \<and>
             (\<exists>ne. net_of_epoch c ev ?s0 e = Some ne \<and>
                files s (trained_model_file c) = Some (StateDictFile (state_dict ev ne)) \<and>
                files s (trained_model_file c @ ''.full'') = Some (FullModelFile ne)) \<and>
             (\<exists>pre. updated_epochs (stdout s) = pre @ [e]))"
    by blast+
  have first: "(\<exists>ne. net_of_epoch c ev ?s0 e = Some ne \<and>
               files s (trained_model_file c) = Some (StateDictFile (state_dict ev ne)) \<and>
               files s (trained_model_file c @ ''.full'') = Some (FullModelFile ne)) \<and>
            best_val_criterion s = v"
    if e: "e < ?n" "eligible c e" "val_loss_of_epoch c ev ?s0 e = Some v" "v < 10000"
      and least: "\<And>e' v'. e' < ?n \<Longrightarrow> eligible c e' \<Longrightarrow>
          val_loss_of_epoch c ev ?s0 e' = Some v' \<Longrightarrow> v \<le> v' \<and> (e' < e \<longrightarrow> v < v')"
    for e v
  proof -
    from lower [OF e(1-3)] e(4) b0 have "best_val_criterion s \<noteq> best_val_criterion ?s0"
      by simp
    with shape obtain e1 ne where
      e1: "e1 < ?n" "eligible c e1"
        "val_loss_of_epoch c ev ?s0 e1 = Some (best_val_criterion s)" and
      before: "\<And>e' v'. e' < e1 \<Longrightarrow> eligible c e' \<Longrightarrow>
          val_loss_of_epoch c ev ?s0 e' = Some v' \<Longrightarrow> best_val_criterion s < v'" and
      ne: "net_of_epoch c ev ?s0 e1 = Some ne"
        "files s (trained_model_file c) = Some (StateDictFile (state_dict ev ne))"
        "files s (trained_model_file c @ ''.full'') = Some (FullModelFile ne)"
      by blast
    from least [OF e1] lower [OF e(1-3)] have eq: "best_val_criterion s = v"
      by simp
    have "e1 = e"
    proof (rule ccontr)
      assume "e1 \<noteq> e"
      then consider "e1 < e" | "e < e1" by linarith
      then show False
      proof cases
        case 1
        with least [OF e1] eq show False by simp
      next
        case 2
        from before [OF 2 e(2,3)] eq show False by simp
      qed
    qed
    with ne eq show ?thesis by simp
  qed
  have none: "files s = fs0 \<and> best_val_criterion s = 10000"
    if high: "\<And>e v. e < ?n \<Longrightarrow> eligible c e \<Longrightarrow>
          val_loss_of_epoch c ev ?s0 e = Some v \<Longrightarrow> 10000 \<le> v"
  proof -
    from shape show ?thesis
    proof
      assume "best_val_criterion s = best_val_criterion ?s0 \<and> files s = files ?s0 \<and>
           stdout s = stdout ?s0"
      with b0 show ?thesis by simp
    next
      assume "\<exists>e<?n. eligible c e \<and> val_loss_of_epoch c ev ?s0 e = Some (best_val_criterion s) \<and>
             best_val_criterion s < best_val_criterion ?s0 \<and>
             (\<forall>e'<e. eligible c e' \<longrightarrow>
                (\<forall>v'. val_loss_of_epoch c ev ?s0 e' = Some v' \<longrightarrow> best_val_criterion s < v')) \<and>
             (\<exists>ne. net_of_epoch c ev ?s0 e = Some ne \<and>
                files s (trained_model_file c) = Some (StateDictFile (state_dict ev ne)) \<and>
                files s (trained_model_file c @ ''.full'') = Some (FullModelFile ne)) \<and>
             (\<exists>pre. updated_epochs (stdout s) = pre @ [e])"
      then obtain e where "e < ?n" "eligible c e"
        "val_loss_of_epoch c ev ?s0 e = Some (best_val_criterion s)"
        "best_val_criterion s < best_val_criterion ?s0"
        by blast
      with high [of e "best_val_criterion s"] b0 show ?thesis by simp
    qed
  qed
  from first none show ?thesis
    unfolding eligible_def by blast
qed

theorem best_checkpoint_is_first_minimum_after_first_sixth_witness:
  "after_epochs demo_conf demo_env (init_state 0 () (\<lambda>p. None)) (nat (n_epochs demo_conf))
     = Inr demo_state2 \<and>
   val_loss_of_epoch demo_conf demo_env (init_state 0 () (\<lambda>p. None)) 1 = Some 2 \<and>
   net_of_epoch demo_conf demo_env (init_state 0 () (\<lambda>p. None)) 1 = Some 2 \<and>
   files demo_state2 (trained_model_file demo_conf) = Some (StateDictFile (state_dict demo_env 2)) \<and>
   files demo_state2 (trained_model_file demo_conf @ ''.full'') = Some (FullModelFile 2) \<and>
   best_val_criterion demo_state2 = 2 \<and>
   after_epochs demo_conf1 demo_env (init_state 0 () (\<lambda>p. None)) (nat (n_epochs demo_conf1))
     = Inr demo_state1 \<and>
   files demo_state1 = (\<lambda>p. None) \<and> best_val_criterion demo_state1 = 10000"
proof -
  let ?s0 = "init_state (0::int) () (\<lambda>p. None :: (int, int) file_content option)"
  have s0: "?s0 = demo_init"
    by (simp only: demo_init_def)
  have n2: "nat (n_epochs demo_conf) = 2" and n1: "nat (n_epochs demo_conf1) = 1"
    by (simp_all add: demo_conf_def demo_conf1_def)
  have run2: "after_epochs demo_conf demo_env ?s0 (nat (n_epochs demo_conf)) = Inr demo_state2"
    by (simp only: s0 n2 demo_after_2)
  have run1: "after_epochs demo_conf1 demo_env ?s0 (nat (n_epochs demo_conf1)) = Inr demo_state1"
    by (simp only: s0 n1 demo1_after_1)
  have vl: "val_loss_of_epoch demo_conf demo_env ?s0 1 = Some 2"
    and nt: "net_of_epoch demo_conf demo_env ?s0 1 = Some 2"
    by (simp_all only: s0 demo_val_losses)
  have least: "\<forall>e' v'. e' < nat (n_epochs demo_conf) \<and>
       real_of_int (n_epochs demo_conf) / 6 < real e' \<and>
       val_loss_of_epoch demo_conf demo_env ?s0 e' = Some v' \<longrightarrow>
       2 \<le> v' \<and> (e' < 1 \<longrightarrow> 2 < v')"
  proof (intro allI impI)
    fix e' :: nat and v' :: real
    assume a: "e' < nat (n_epochs demo_conf) \<and>
       real_of_int (n_epochs demo_conf) / 6 < real e' \<and>
       val_loss_of_epoch demo_conf demo_env ?s0 e' = Some v'"
    from a n2 have "e' < 2" by simp
    moreover from a have "0 < e'" by (simp add: demo_conf_def)
    ultimately have "e' = 1" by simp
    with a vl have "v' = 2" by simp
    with \<open>e' = 1\<close> show "2 \<le> v' \<and> (e' < 1 \<longrightarrow> 2 < v')"
      by simp
  qed
  have p1: "(1::nat) < nat (n_epochs demo_conf)"
    by (simp add: n2)
  have p2: "real_of_int (n_epochs demo_conf) / 6 < real 1"
    by (simp add: demo_conf_def)
  have p3: "(2::real) < 10000"
    by simp
  have prem: "(1::nat) < nat (n_epochs demo_conf) \<and>
       real_of_int (n_epochs demo_conf) / 6 < real 1 \<and>
       val_loss_of_epoch demo_conf demo_env ?s0 1 = Some 2 \<and> (2::real) < 10000 \<and>
       (\<forall>e' v'. e' < nat (n_epochs demo_conf) \<and>
          real_of_int (n_epochs demo_conf) / 6 < real e' \<and>
          val_loss_of_epoch demo_conf demo_env ?s0 e' = Some v' \<longrightarrow>
          2 \<le> v' \<and> (e' < 1 \<longrightarrow> 2 < v'))"
    by (intro conjI) (rule p1 p2 vl p3 least)+
  note r = best_checkpoint_is_first_minimum_after_first_sixth [OF run2, THEN conjunct1,
      rule_format, OF prem]
  from r nt have r2: "files demo_state2 (trained_model_file demo_conf) = Some (StateDictFile (state_dict demo_env 2))"
    "files demo_state2 (trained_model_file demo_conf @ ''.full'') = Some (FullModelFile 2)"
    "best_val_criterion demo_state2 = 2"
    by auto
  have none: "\<forall>e v. e < nat (n_epochs demo_conf1) \<and>
       real_of_int (n_epochs demo_conf1) / 6 < real e \<and>
       val_loss_of_epoch demo_conf1 demo_env ?s0 e = Some v \<longrightarrow> 10000 \<le> v"
  proof (intro allI impI)
    fix e :: nat and v :: real
    assume a: "e < nat (n_epochs demo_conf1) \<and>
       real_of_int (n_epochs demo_conf1) / 6 < real e \<and>
       val_loss_of_epoch demo_conf1 demo_env ?s0 e = Some v"
    from a n1 have "e = 0" by simp
    with a have False by (simp add: demo_conf1_def)
    then show "10000 \<le> v" ..
  qed
  from best_checkpoint_is_first_minimum_after_first_sixth [OF run1, THEN conjunct2] none
  have r1: "files demo_state1 = (\<lambda>p. None) \<and> best_val_criterion demo_state1 = 10000"
    by (rule mp)
  from run2 vl nt r2 run1 r1 show ?thesis
    by blast
qed

text \<open>
  C2. For inputs that flatten to sequences of one length, not empty, \<open>measure\<close>
  returns, in this order: what \<open>spearmanr\<close>, \<open>kendalltau\<close> and \<open>pearsonr\<close> return on the
  flattened ground truth and predictions, the square root of the mean of the squared
  differences, and the share of items whose absolute difference exceeds twice their
  standard deviation.
\<close>

theorem measure_returns_five_metrics:
  assumes "flattened sq = Inr xs" and "flattened q = Inr ys" and "flattened sq_std = Inr sds"
    and "xs \<noteq> []" and "length ys = length xs" and "length sds = length xs"
    and "sp xs ys = Inr srocc" and "kd xs ys = Inr krocc" and "pr xs ys = Inr plcc"
  shows "measure_py sp kd pr sq q sq_std =
     Inr (srocc, krocc, plcc, Fin (rmse_spec xs ys), Fin (outlier_ratio_spec xs ys sds))"
  unfolding measure_py_flattened assms(1-3) py_bind_Inr
  using assms(4-9) by (rule measure_flat_equal_lengths)

theorem measure_returns_five_metrics_witness:
  "flattened (Nested [Scalar 3, Scalar 5]) = Inr [3, 5] \<and>
   flattened (Nested [Nested [Scalar 1], Nested [Scalar 3]]) = Inr [1, 3] \<and>
   flattened (Nested [Scalar (1/2), Scalar 2]) = Inr [1/2, 2] \<and>
   measure_py (spearmanr demo_env) (kendalltau demo_env) (pearsonr demo_env)
     (Nested [Scalar 3, Scalar 5]) (Nested [Nested [Scalar 1], Nested [Scalar 3]])
     (Nested [Scalar (1/2), Scalar 2])
   = Inr (Fin 1, Fin 1, Fin 1, Fin (rmse_spec [3, 5] [1, 3]),
          Fin (outlier_ratio_spec [3, 5] [1, 3] [1/2, 2])) \<and>
   rmse_spec [3, 5] [1, 3] = 2 \<and> outlier_ratio_spec [3, 5] [1, 3] [1/2, 2] = 1/2"
proof -
  have st: "spearmanr demo_env [3, 5] [1, 3] = Inr (Fin 1)"
    "kendalltau demo_env [3, 5] [1, 3] = Inr (Fin 1)"
    "pearsonr demo_env [3, 5] [1, 3] = Inr (Fin 1)"
    by (simp_all add: demo_env_def)
  have ln: "[3, 5 :: real] \<noteq> []" "length [1, 3 :: real] = length [3, 5 :: real]"
    "length [1/2, 2 :: real] = length [3, 5 :: real]"
    by simp_all
  note th = measure_returns_five_metrics [where sp = "spearmanr demo_env"
      and kd = "kendalltau demo_env" and pr = "pearsonr demo_env",
      OF demo_flattened(1,3,5) ln st]
  have ev: "measure_py (spearmanr demo_env) (kendalltau demo_env) (pearsonr demo_env)
     (Nested [Scalar 3, Scalar 5]) (Nested [Nested [Scalar 1], Nested [Scalar 3]])
     (Nested [Scalar (1/2), Scalar 2]) = Inr (Fin 1, Fin 1, Fin 1, Fin 2, Fin (1/2))"
    by (simp add: demo_env_def measure_py_def measure_flat_def np_asarray_def
        np_reshape_flat_def np_elementwise_def np_mean_def bool_to_real_def py_bind_def)
  from th ev have "rmse_spec [3, 5] [1, 3] = 2" "outlier_ratio_spec [3, 5] [1, 3] [1/2, 2] = 1/2"
    by simp_all
  with th demo_flattened(1,3,5) show ?thesis
    by blast
qed

text \<open>
  C3 does not hold of the code. With \<open>test_ratio > 0\<close>, line 221 calls
  \<open>load_state_dict\<close> on \<open>model\<close>, the configuration string of line 48, and not on the
  network \<open>net\<close>: the run ends in an \<open>AttributeError\<close> as soon as the epoch loop is over,
  with the checkpoint on disk never loaded and no test metric reported.
\<close>

theorem final_test_raises_before_loading:
  assumes "test_ratio c > 0"
  shows "(\<forall>s. after_epochs c ev s0 (nat (n_epochs c)) = Inr s \<longrightarrow>
            main c ev s0 = Inl AttributeError) \<and>
         (\<exists>err. main c ev s0 = Inl err)"
proof (cases "after_epochs c ev s0 (nat (n_epochs c))")
  case (Inl err)
  then show ?thesis
    by (simp add: main_def py_bind_Inl)
next
  case (Inr s)
  with assms show ?thesis
    by (simp add: main_def py_bind_Inr final_test_def)
qed

theorem final_test_raises_before_loading_witness:
  "test_ratio demo_conf > 0 \<and>
   after_epochs demo_conf demo_env demo_init (nat (n_epochs demo_conf)) = Inr demo_state2 \<and>
   files demo_state2 (trained_model_file demo_conf) = Some (StateDictFile 2) \<and>
   main demo_conf demo_env demo_init = Inl AttributeError"
proof -
  have t: "test_ratio demo_conf > 0"
    by (simp add: demo_conf_def)
  have "nat (n_epochs demo_conf) = 2"
    by (simp add: demo_conf_def)
  then have run: "after_epochs demo_conf demo_env demo_init (nat (n_epochs demo_conf)) = Inr demo_state2"
    by (simp only: demo_after_2)
  have f: "files demo_state2 (trained_model_file demo_conf) = Some (StateDictFile 2)"
    by (simp add: demo_state2_def trained_model_file_def demo_conf_def)
  from final_test_raises_before_loading [OF t, of demo_env demo_init] run
  have "main demo_conf demo_env demo_init = Inl AttributeError"
    by blast
  with t run f show ?thesis by blast
qed

text \<open>
  C4 does not hold of the code. In the small run the evaluator returns the outlier
  ratio 1 on the test split and 0 on the validation split. The \<open>Test results\<close> line,
  printed and written to the text file, carries the validation value (lines 202 and 209
  format \<open>val_OR\<close>), while the array saved by \<open>np.save\<close> carries the test value.
\<close>

theorem test_line_reports_validation_outlier_ratio:
  "after_epochs demo_conf demo_env demo_init 2 = Inr demo_state2 \<and>
   last (calls demo_state2) =
     Measure Test (Nested [Scalar 4]) (Nested [Nested [Scalar 3]]) (Nested [Scalar (1/4)]) \<and>
   measure_py (spearmanr demo_env) (kendalltau demo_env) (pearsonr demo_env)
     (Nested [Scalar 4]) (Nested [Nested [Scalar 3]]) (Nested [Scalar (1/4)])
     = Inr (Fin 1, Fin 1, Fin 1, Fin 1, Fin 1) \<and>
   val_metrics demo_state2 = Some (Fin 1, Fin 1, Fin 1, Fin 0, Fin 0) \<and>
   stdout demo_state2 =
     [UpdateLine ''0'' 1, ValResults 2 (Fin 1) (Fin 1) (Fin 1) (Fin 0) (Fin 0),
      TestResults 2 (Fin 1) (Fin 1) (Fin 1) (Fin 1) (Fin 0)] \<and>
   files demo_state2 (save_result_file demo_conf @ ''.txt'') =
     Some (TxtFile [UpdateLine ''0'' 1, ValResults 2 (Fin 1) (Fin 1) (Fin 1) (Fin 0) (Fin 0),
       TestResults 2 (Fin 1) (Fin 1) (Fin 1) (Fin 1) (Fin 0)]) \<and>
   files demo_state2 (np_save_path (save_result_file demo_conf)) =
     Some (NpyFile [Scalar 4] [Scalar (1/4)] [Nested [Scalar 3]] 2
       (Fin 1) (Fin 1) (Fin 1) (Fin 1) (Fin 1) [7])"
proof -
  have 1: "last (calls demo_state2) =
     Measure Test (Nested [Scalar 4]) (Nested [Nested [Scalar 3]]) (Nested [Scalar (1/4)])"
    by (simp add: demo_state2_def demo_calls_def)
  have 2: "measure_py (spearmanr demo_env) (kendalltau demo_env) (pearsonr demo_env)
     (Nested [Scalar 4]) (Nested [Nested [Scalar 3]]) (Nested [Scalar (1/4)])
     = Inr (Fin 1, Fin 1, Fin 1, Fin 1, Fin 1)"
    by (simp add: demo_env_def measure_py_def measure_flat_def np_asarray_def
        np_reshape_flat_def np_elementwise_def np_mean_def bool_to_real_def py_bind_def)
  have 3: "val_metrics demo_state2 = Some (Fin 1, Fin 1, Fin 1, Fin 0, Fin 0)"
    by (simp add: demo_state2_def demo_state1_def)
  have 4: "stdout demo_state2 =
     [UpdateLine ''0'' 1, ValResults 2 (Fin 1) (Fin 1) (Fin 1) (Fin 0) (Fin 0),
      TestResults 2 (Fin 1) (Fin 1) (Fin 1) (Fin 1) (Fin 0)]"
    by (simp add: demo_state2_def)
  have 5: "files demo_state2 (save_result_file demo_conf @ ''.txt'') =
     Some (TxtFile [UpdateLine ''0'' 1, ValResults 2 (Fin 1) (Fin 1) (Fin 1) (Fin 0) (Fin 0),
       TestResults 2 (Fin 1) (Fin 1) (Fin 1) (Fin 1) (Fin 0)])"
    by (simp add: demo_state2_def save_result_file_def demo_conf_def)
  have 6: "files demo_state2 (np_save_path (save_result_file demo_conf)) =
     Some (NpyFile [Scalar 4] [Scalar (1/4)] [Nested [Scalar 3]] 2
       (Fin 1) (Fin 1) (Fin 1) (Fin 1) (Fin 1) [7])"
    by (simp add: demo_state2_def save_result_file_def np_save_path_def ends_with_def demo_conf_def)
  from demo_after_2 1 2 3 4 5 6 show ?thesis
    by blast
qed

text \<open>
  C5. The calls an epoch adds to the log are, in this order: the training steps over the
  batches of the train loader, then the evaluation of every validation batch, then one
  call of \<open>measure\<close> on the quality means (position 2), the predictions and the
  standard deviations (position 3) of all validation batches; nothing after it is a
  training step or a call of \<open>measure\<close> on the validation split. That call gives the
  validation metrics of the epoch, and the validation loss is the mean of the batch
  losses.
\<close>

theorem validation_measured_once_after_training:
  assumes "epoch_body c ev e s = Inr s'"
  shows "\<exists>post mv.
     calls s' = calls s @ NetTrain # map TrainStep (trainloader ev e) @
       NetEval # map (ForwardEval Val) (valloader ev) @
       Measure Val (Nested (map (\<lambda>d. d ! 2) (valloader ev)))
         (Nested (map (\<lambda>d. snd (forward_eval ev (net s') d)) (valloader ev)))
         (Nested (map (\<lambda>d. d ! 3) (valloader ev))) # post \<and>
     filter is_train_step post = [] \<and> filter is_val_measure post = [] \<and>
     length (filter is_val_measure (drop (length (calls s)) (calls s'))) = 1 \<and>
     list_all (\<lambda>d. 3 < length d) (valloader ev) \<and>
     measure_py (spearmanr ev) (kendalltau ev) (pearsonr ev)
       (Nested (map (\<lambda>d. d ! 2) (valloader ev)))
       (Nested (map (\<lambda>d. snd (forward_eval ev (net s') d)) (valloader ev)))
       (Nested (map (\<lambda>d. d ! 3) (valloader ev))) = Inr mv \<and>
     val_metrics s' = Some mv \<and>
     val_loss s' = Some (sum_list (map (\<lambda>d. fst (forward_eval ev (net s') d)) (valloader ev))
                          / real (length (valloader ev)))"
proof -
  from epoch_body_effect [OF assms] obtain s5 v t where
    ub: "update_best c ev e v t s5 = Inr s'" and
    vl: "val_loss s5 = Some (ev_loss v)" and vm: "val_metrics s5 = Some (ev_measure v)" and
    loss: "ev_loss v = sum_list (map (\<lambda>d. fst (forward_eval ev (net s5) d)) (valloader ev))
                   / real (length (valloader ev))" and
    q: "ev_q v = map (\<lambda>d. snd (forward_eval ev (net s5) d)) (valloader ev)" and
    sq: "ev_sq v = map (\<lambda>d. d ! 2) (valloader ev)" and
    sd: "ev_sq_std v = map (\<lambda>d. d ! 3) (valloader ev)" and
    me: "measure_py (spearmanr ev) (kendalltau ev) (pearsonr ev)
       (Nested (ev_sq v)) (Nested (ev_q v)) (Nested (ev_sq_std v)) = Inr (ev_measure v)" and
    ln: "list_all (\<lambda>d. 3 < length d) (valloader ev)" and
    cs: "calls s5 = calls s @ NetTrain # map TrainStep (trainloader ev e) @
       NetEval # map (ForwardEval Val) (valloader ev) @
       Measure Val (Nested (ev_sq v)) (Nested (ev_q v)) (Nested (ev_sq_std v)) #
       test_calls ev t"
    by blast
  note fr = update_best_frame [OF ub]
  let ?sq = "Nested (map (\<lambda>d. d ! 2) (valloader ev))"
  let ?q = "Nested (map (\<lambda>d. snd (forward_eval ev (net s') d)) (valloader ev))"
  let ?sd = "Nested (map (\<lambda>d. d ! 3) (valloader ev))"
  have 1: "calls s' = calls s @ NetTrain # map TrainStep (trainloader ev e) @
       NetEval # map (ForwardEval Val) (valloader ev) @ Measure Val ?sq ?q ?sd # test_calls ev t"
    using cs fr sq q sd by simp
  have 2: "length (filter is_val_measure (drop (length (calls s)) (calls s'))) = 1"
    unfolding 1 by (simp add: filter_map o_def test_calls_no_val)
  have 3: "measure_py (spearmanr ev) (kendalltau ev) (pearsonr ev) ?sq ?q ?sd
      = Inr (ev_measure v)"
    using me sq q sd fr(1) by simp
  have 4: "val_metrics s' = Some (ev_measure v)"
    using vm fr by simp
  have 5: "val_loss s' = Some (sum_list (map (\<lambda>d. fst (forward_eval ev (net s') d)) (valloader ev))
                          / real (length (valloader ev)))"
    using vl loss fr by simp
  from 1 2 3 4 5 ln test_calls_no_val [of ev t] show ?thesis
    by blast
qed

theorem validation_measured_once_after_training_witness:
  "epoch_body demo_conf demo_env 0 demo_init = Inr demo_state1 \<and>
   calls demo_state1 = calls demo_init @
     [NetTrain, TrainStep (dataset_batch (Scalar 0) (Scalar 0) (Scalar 5) (Scalar 1)),
      NetEval, ForwardEval Val (dataset_batch (Scalar 0) (Scalar 0) (Scalar 3) (Scalar 1)),
      Measure Val (Nested [Scalar 3]) (Nested [Nested [Scalar 3]]) (Nested [Scalar 1]),
      ForwardEval Test (dataset_batch (Scalar 0) (Scalar 0) (Scalar 4) (Scalar (1/4))),
      Measure Test (Nested [Scalar 4]) (Nested [Nested [Scalar 3]]) (Nested [Scalar (1/4)])] \<and>
   length (filter is_val_measure (drop (length (calls demo_init)) (calls demo_state1))) = 1 \<and>
   val_metrics demo_state1 = Some (Fin 1, Fin 1, Fin 1, Fin 0, Fin 0) \<and>
   val_loss demo_state1 = Some 1"
proof -
  have h: "epoch_body demo_conf demo_env 0 demo_init = Inr demo_state1"
    by (rule demo_epoch_0)
  from validation_measured_once_after_training [OF h] have
    once: "length (filter is_val_measure (drop (length (calls demo_init)) (calls demo_state1))) = 1"
    by blast
  have rest: "calls demo_state1 = calls demo_init @
     [NetTrain, TrainStep (dataset_batch (Scalar 0) (Scalar 0) (Scalar 5) (Scalar 1)),
      NetEval, ForwardEval Val (dataset_batch (Scalar 0) (Scalar 0) (Scalar 3) (Scalar 1)),
      Measure Val (Nested [Scalar 3]) (Nested [Nested [Scalar 3]]) (Nested [Scalar 1]),
      ForwardEval Test (dataset_batch (Scalar 0) (Scalar 0) (Scalar 4) (Scalar (1/4))),
      Measure Test (Nested [Scalar 4]) (Nested [Nested [Scalar 3]]) (Nested [Scalar (1/4)])]"
    "val_metrics demo_state1 = Some (Fin 1, Fin 1, Fin 1, Fin 0, Fin 0)"
    "val_loss demo_state1 = Some 1"
    by (simp_all add: demo_state1_def demo_calls_def demo_init_def init_state_def)
  from h once rest show ?thesis by blast
qed

text \<open>
  C6. Every time the best model is updated (the branch of line 172 is entered), the
  script writes the network's state dict to the trained-model file and the full model
  object to the same path with the suffix \<open>.full\<close>.
\<close>

theorem best_update_persists_snapshot_and_full_model:
  assumes "epoch_body c ev epoch s = Inr s'" and "val_loss s' = Some vl"
    and "update_guard c epoch vl s"
  shows "files s' (trained_model_file c) = Some (StateDictFile (state_dict ev (net s'))) \<and>
         files s' (trained_model_file c @ ''.full'') = Some (FullModelFile (net s'))"
  using epoch_body_taken(2,3) [OF assms] by simp

theorem best_update_persists_snapshot_and_full_model_witness:
  "epoch_body demo_conf demo_env 1 demo_state1 = Inr demo_state2 \<and>
   val_loss demo_state2 = Some 2 \<and> update_guard demo_conf 1 2 demo_state1 \<and>
   net demo_state2 = 2 \<and>
   files demo_state2 (trained_model_file demo_conf) =
     Some (StateDictFile (state_dict demo_env (net demo_state2))) \<and>
   files demo_state2 (trained_model_file demo_conf @ ''.full'') =
     Some (FullModelFile (net demo_state2))"
proof -
  have h1: "epoch_body demo_conf demo_env 1 demo_state1 = Inr demo_state2"
    by (rule demo_epoch_1)
  have h2: "val_loss demo_state2 = Some 2"
    by (simp add: demo_state2_def)
  have h3: "update_guard demo_conf 1 2 demo_state1"
    by (simp add: update_guard_def demo_state1_def demo_init_def init_state_def demo_conf_def)
  have h4: "net demo_state2 = 2"
    by (simp add: demo_state2_def)
  from best_update_persists_snapshot_and_full_model [OF h1 h2 h3] h1 h2 h3 h4
  show ?thesis by simp
qed

text \<open>
  C7. With batches laid out as the spec has the dataset provider yield them, (patches,
  distortion labels, quality mean, quality std-dev), every batch has four entries, and
  an evaluation pass, on either split, collects the quality means from position 2 and
  the standard deviations from position 3 and hands exactly these to \<open>measure\<close>.
\<close>

theorem evaluation_reads_mean_and_std:
  assumes "eval_pass ev sp (map (\<lambda>(p, l, m, sd). dataset_batch p l m sd) items) s = Inr (s', r)"
  shows "list_all (\<lambda>d. length d = 4) (map (\<lambda>(p, l, m, sd). dataset_batch p l m sd) items) \<and>
         ev_sq r = map (\<lambda>(p, l, m, sd). m) items \<and>
         ev_sq_std r = map (\<lambda>(p, l, m, sd). sd) items \<and>
         last (calls s') = Measure sp (Nested (map (\<lambda>(p, l, m, sd). m) items)) (Nested (ev_q r))
                             (Nested (map (\<lambda>(p, l, m, sd). sd) items))"
proof -
  let ?loader = "map (\<lambda>(p, l, m, sd). dataset_batch p l m sd) items"
  have 1: "list_all (\<lambda>d. length d = 4) ?loader"
    by (simp add: list_all_iff dataset_batch_def split: prod.splits)
  have 2: "map (\<lambda>d. d ! 2) ?loader = map (\<lambda>(p, l, m, sd). m) items"
    by (simp add: dataset_batch_def split_def)
  have 3: "map (\<lambda>d. d ! 3) ?loader = map (\<lambda>(p, l, m, sd). sd) items"
    by (simp add: dataset_batch_def split_def)
  note e = eval_pass_effect [OF assms]
  from e(5) 2 have 4: "ev_sq r = map (\<lambda>(p, l, m, sd). m) items"
    by simp
  from e(6) 3 have 5: "ev_sq_std r = map (\<lambda>(p, l, m, sd). sd) items"
    by simp
  from e(2) have "last (calls s') = Measure sp (Nested (ev_sq r)) (Nested (ev_q r))
      (Nested (ev_sq_std r))"
    by simp
  with 4 5 have 6: "last (calls s') = Measure sp (Nested (map (\<lambda>(p, l, m, sd). m) items))
      (Nested (ev_q r)) (Nested (map (\<lambda>(p, l, m, sd). sd) items))"
    by simp
  from 1 4 5 6 show ?thesis by blast
qed

theorem evaluation_reads_mean_and_std_witness:
  "\<exists>s' r. eval_pass demo_env Test
       (map (\<lambda>(p, l, m, sd). dataset_batch p l m sd) [(Scalar 0, Scalar 0, Scalar 4, Scalar (1/4))])
       demo_state1 = Inr (s', r) \<and>
     ev_sq r = [Scalar 4] \<and> ev_sq_std r = [Scalar (1/4)] \<and>
     last (calls s') = Measure Test (Nested [Scalar 4]) (Nested (ev_q r)) (Nested [Scalar (1/4)])"
proof -
  have "\<exists>s' r. eval_pass demo_env Test
       (map (\<lambda>(p, l, m, sd). dataset_batch p l m sd) [(Scalar 0, Scalar 0, Scalar 4, Scalar (1/4))])
       demo_state1 = Inr (s', r)"
    by (simp add: demo_state1_def demo_calls_def demo_defs)
  then obtain s' r where h: "eval_pass demo_env Test
       (map (\<lambda>(p, l, m, sd). dataset_batch p l m sd) [(Scalar 0, Scalar 0, Scalar 4, Scalar (1/4))])
       demo_state1 = Inr (s', r)"
    by blast
  from evaluation_reads_mean_and_std [OF h] h show ?thesis
    by auto
qed

text \<open>
  C8. No checkpoint is written in an epoch \<open>e\<close> with \<open>e \<le> n_epochs/6\<close>; when an epoch
  writes files, its validation loss is strictly below the criterion held when the epoch
  began and \<open>e > n_epochs/6\<close>. Hence every epoch the script reports an update for lies
  beyond the first sixth: an epoch of the first sixth, whatever its validation loss, is
  never the one whose model is saved.
\<close>

theorem no_checkpoint_in_first_sixth:
  assumes "after_epochs c ev (init_state net0 opt0 fs0) e = Inr s"
    and "epoch_body c ev e s = Inr s'"
  shows "(real e \<le> real_of_int (n_epochs c) / 6 \<longrightarrow> files s' = files s) \<and>
         (files s' \<noteq> files s \<longrightarrow>
            (\<exists>vl. val_loss s' = Some vl \<and> vl < best_val_criterion s \<and>
                  real_of_int (n_epochs c) / 6 < real e)) \<and>
         (\<forall>e0 \<in> set (updated_epochs (stdout s')). real_of_int (n_epochs c) / 6 < real e0)"
proof -
  from epoch_body_val_loss [OF assms(2)] obtain vl where vl: "val_loss s' = Some vl" ..
  have a: "files s' = files s" if "\<not> update_guard c e vl s"
    using epoch_body_skipped(2) [OF assms(2) vl that] .
  have 1: "real e \<le> real_of_int (n_epochs c) / 6 \<longrightarrow> files s' = files s"
    using a by (auto simp: update_guard_def)
  have 2: "files s' \<noteq> files s \<longrightarrow>
            (\<exists>vl. val_loss s' = Some vl \<and> vl < best_val_criterion s \<and>
                  real_of_int (n_epochs c) / 6 < real e)"
    using a vl by (auto simp: update_guard_def)
  from assms have "after_epochs c ev (init_state net0 opt0 fs0) (Suc e) = Inr s'"
    by (simp add: after_epochs_Suc py_bind_Inr)
  from run_updated_epochs [OF this]
  have 3: "\<forall>e0 \<in> set (updated_epochs (stdout s')). real_of_int (n_epochs c) / 6 < real e0"
    by (auto simp: init_state_def eligible_def)
  from 1 2 3 show ?thesis by blast
qed

theorem no_checkpoint_in_first_sixth_witness:
  "after_epochs demo_conf demo_env (init_state 0 () (\<lambda>p. None)) 0 = Inr demo_init \<and>
   epoch_body demo_conf demo_env 0 demo_init = Inr demo_state1 \<and>
   real 0 \<le> real_of_int (n_epochs demo_conf) / 6 \<and>
   files demo_state1 = files demo_init \<and>
   after_epochs demo_conf demo_env (init_state 0 () (\<lambda>p. None)) 1 = Inr demo_state1 \<and>
   epoch_body demo_conf demo_env 1 demo_state1 = Inr demo_state2 \<and>
   files demo_state2 \<noteq> files demo_state1 \<and>
   val_loss demo_state2 = Some 2 \<and> 2 < best_val_criterion demo_state1 \<and>
   real_of_int (n_epochs demo_conf) / 6 < real 1 \<and>
   updated_epochs (stdout demo_state2) = [1]"
proof -
  have g0: "after_epochs demo_conf demo_env (init_state 0 () (\<lambda>p. None)) 0 = Inr demo_init"
    by (simp add: after_epochs_0 demo_init_def)
  have g1: "epoch_body demo_conf demo_env 0 demo_init = Inr demo_state1"
    by (rule demo_epoch_0)
  have g2: "real 0 \<le> real_of_int (n_epochs demo_conf) / 6"
    by (simp add: demo_conf_def)
  have h1: "after_epochs demo_conf demo_env (init_state 0 () (\<lambda>p. None)) 1 = Inr demo_state1"
    using demo_after_1 by (simp add: demo_init_def)
  have h2: "epoch_body demo_conf demo_env 1 demo_state1 = Inr demo_state2"
    by (rule demo_epoch_1)
  have "files demo_state2 ''models/WaDIQaM-FR-LIVE-EXP0'' \<noteq>
        files demo_state1 ''models/WaDIQaM-FR-LIVE-EXP0''"
    by (simp add: demo_state2_def demo_state1_def demo_init_def init_state_def)
  then have h3: "files demo_state2 \<noteq> files demo_state1"
    by auto
  have h4: "updated_epochs (stdout demo_state2) = [1]"
    by (simp add: demo_state2_def)
  from no_checkpoint_in_first_sixth [OF g0 g1] g2 have g3: "files demo_state1 = files demo_init"
    by blast
  from no_checkpoint_in_first_sixth [OF h1 h2] h3 have
    h5: "val_loss demo_state2 = Some 2 \<and> 2 < best_val_criterion demo_state1 \<and>
         real_of_int (n_epochs demo_conf) / 6 < real 1"
    by (simp add: demo_state2_def)
  from g0 g1 g2 g3 h1 h2 h3 h4 h5 show ?thesis
    by blast
qed

text \<open>
  C9. The criterion starts at 10000 and no epoch raises it. After every epoch it is
  10000 when no update has happened yet, and otherwise the validation loss of the latest
  epoch with an update. When an epoch changes it, that epoch is an update epoch and has
  written both checkpoint files.
\<close>

theorem best_val_criterion_non_increasing:
  assumes "after_epochs c ev (init_state net0 opt0 fs0) k = Inr s"
    and "epoch_body c ev k s = Inr s'"
  shows "best_val_criterion (init_state net0 opt0 fs0) = 10000 \<and>
         best_val_criterion s' \<le> best_val_criterion s \<and>
         (if updated_epochs (stdout s') = [] then best_val_criterion s' = 10000
          else val_loss_of_epoch c ev (init_state net0 opt0 fs0)
                 (last (updated_epochs (stdout s'))) = Some (best_val_criterion s')) \<and>
         (best_val_criterion s' \<noteq> best_val_criterion s \<longrightarrow>
            updated_epochs (stdout s') = updated_epochs (stdout s) @ [k] \<and>
            files s' (trained_model_file c) = Some (StateDictFile (state_dict ev (net s'))) \<and>
            files s' (trained_model_file c @ ''.full'') = Some (FullModelFile (net s')))"
proof -
  let ?s0 = "init_state net0 opt0 fs0"
  have 1: "best_val_criterion ?s0 = 10000"
    by (simp add: init_state_def)
  have 2: "best_val_criterion s' \<le> best_val_criterion s"
    using assms(2) by (rule epoch_body_best_le)
  from assms have run: "after_epochs c ev ?s0 (Suc k) = Inr s'"
    by (simp add: after_epochs_Suc py_bind_Inr)
  from run_tracks_best [OF run] have
    "(best_val_criterion s' = best_val_criterion ?s0 \<and> stdout s' = stdout ?s0) \<or>
     (\<exists>e. val_loss_of_epoch c ev ?s0 e = Some (best_val_criterion s') \<and>
        (\<exists>pre. updated_epochs (stdout s') = pre @ [e]))"
    by blast
  then have 3: "if updated_epochs (stdout s') = [] then best_val_criterion s' = 10000
          else val_loss_of_epoch c ev ?s0 (last (updated_epochs (stdout s')))
                 = Some (best_val_criterion s')"
  proof
    assume "best_val_criterion s' = best_val_criterion ?s0 \<and> stdout s' = stdout ?s0"
    then show ?thesis by (simp add: init_state_def)
  next
    assume "\<exists>e. val_loss_of_epoch c ev ?s0 e = Some (best_val_criterion s') \<and>
        (\<exists>pre. updated_epochs (stdout s') = pre @ [e])"
    then obtain e pre where "val_loss_of_epoch c ev ?s0 e = Some (best_val_criterion s')"
      and "updated_epochs (stdout s') = pre @ [e]"
      by blast
    then show ?thesis by simp
  qed
  from epoch_body_val_loss [OF assms(2)] obtain vl where vl: "val_loss s' = Some vl" ..
  have 4: "best_val_criterion s' \<noteq> best_val_criterion s \<longrightarrow>
            updated_epochs (stdout s') = updated_epochs (stdout s) @ [k] \<and>
            files s' (trained_model_file c) = Some (StateDictFile (state_dict ev (net s'))) \<and>
            files s' (trained_model_file c @ ''.full'') = Some (FullModelFile (net s'))"
  proof (cases "update_guard c k vl s")
    case True
    from epoch_body_taken(2-4) [OF assms(2) vl True] show ?thesis by simp
  next
    case False
    from epoch_body_skipped(1) [OF assms(2) vl False] show ?thesis by simp
  qed
  from 1 2 3 4 show ?thesis by blast
qed

theorem best_val_criterion_non_increasing_witness:
  "after_epochs demo_conf demo_env (init_state 0 () (\<lambda>p. None)) 1 = Inr demo_state1 \<and>
   epoch_body demo_conf demo_env 1 demo_state1 = Inr demo_state2 \<and>
   best_val_criterion (init_state (0::int) () (\<lambda>p. None :: (int, int) file_content option)) = 10000 \<and>
   best_val_criterion demo_state1 = 10000 \<and> best_val_criterion demo_state2 = 2 \<and>
   updated_epochs (stdout demo_state2) = [1] \<and>
   val_loss_of_epoch demo_conf demo_env (init_state 0 () (\<lambda>p. None)) 1 = Some 2 \<and>
   files demo_state2 (trained_model_file demo_conf) = Some (StateDictFile 2)"
proof -
  have h1: "after_epochs demo_conf demo_env (init_state 0 () (\<lambda>p. None)) 1 = Inr demo_state1"
    using demo_after_1 by (simp add: demo_init_def)
  have h2: "epoch_body demo_conf demo_env 1 demo_state1 = Inr demo_state2"
    by (rule demo_epoch_1)
  have h3: "best_val_criterion demo_state1 = 10000" "best_val_criterion demo_state2 = 2"
    "updated_epochs (stdout demo_state2) = [1]" "net demo_state2 = 2"
    "state_dict demo_env = (\<lambda>n. n)"
    by (simp_all add: demo_state2_def demo_state1_def demo_init_def init_state_def demo_env_def)
  from best_val_criterion_non_increasing [OF h1 h2] h1 h2 h3 show ?thesis
    by simp
qed

text \<open>
  C10. \<open>measure\<close> depends on its three inputs only through the flat sequences lines
  28-30 compute from them: inputs of whatever nesting or shape that flatten alike give
  the same result.
\<close>

theorem measure_shape_invariant:
  assumes "flattened sq = flattened sq'" and "flattened q = flattened q'"
    and "flattened sq_std = flattened sq_std'"
  shows "measure_py sp kd pr sq q sq_std = measure_py sp kd pr sq' q' sq_std'"
  unfolding measure_py_flattened assms ..

theorem measure_shape_invariant_witness:
  "np_shape (Nested [Nested [Scalar 3, Scalar 5]]) = Some [1, 2] \<and>
   np_shape (Nested [Scalar 3, Scalar 5]) = Some [2] \<and>
   flattened (Nested [Nested [Scalar 3, Scalar 5]]) = flattened (Nested [Scalar 3, Scalar 5]) \<and>
   np_shape (Nested [Nested [Scalar 1], Nested [Scalar 3]]) = Some [2, 1] \<and>
   flattened (Nested [Nested [Scalar 1], Nested [Scalar 3]]) = flattened (Nested [Scalar 1, Scalar 3]) \<and>
   measure_py (spearmanr demo_env) (kendalltau demo_env) (pearsonr demo_env)
     (Nested [Nested [Scalar 3, Scalar 5]]) (Nested [Nested [Scalar 1], Nested [Scalar 3]])
     (Nested [Scalar (1/2), Scalar 2])
   = measure_py (spearmanr demo_env) (kendalltau demo_env) (pearsonr demo_env)
     (Nested [Scalar 3, Scalar 5]) (Nested [Scalar 1, Scalar 3])
     (Nested [Scalar (1/2), Scalar 2])"
proof -
  have a: "flattened (Nested [Nested [Scalar 3, Scalar 5]]) = flattened (Nested [Scalar 3, Scalar 5])"
    by (simp only: demo_flattened)
  have b: "flattened (Nested [Nested [Scalar 1], Nested [Scalar 3]]) = flattened (Nested [Scalar 1, Scalar 3])"
    by (simp only: demo_flattened)
  have sh: "np_shape (Nested [Nested [Scalar 3, Scalar 5]]) = Some [1, 2]"
    "np_shape (Nested [Scalar 3, Scalar 5]) = Some [2]"
    "np_shape (Nested [Nested [Scalar 1], Nested [Scalar 3]]) = Some [2, 1]"
    by simp_all
  from measure_shape_invariant [OF a b refl] a b sh show ?thesis
    by blast
qed

end
